theory Spec2Isabelle
  imports Main "HOL-Library.Option_ord" "HOL-Library.Multiset"
begin

section \<open>The blood-bank server: request bodies and the JavaScript runtime\<close>

text \<open>
  The server of \<^verbatim>\<open>src/backend/server.js\<close> is a set of Express handlers over three
  Mongoose collections. The handlers are embedded one by one below; what they call in
  Express, Mongoose and the JavaScript runtime is written out next to them, at the level
  the handlers depend on.

  A request body is a JSON object, as \<open>express.json()\<close> (line 14) leaves it in
  \<open>req.body\<close>: the list of its members in their order, each key once. A member that
  is absent reads as \<open>undefined\<close> (\<open>None\<close>). The member values are the JSON
  scalars, the numbers among them integral.
\<close>

datatype json = JNull | JBool bool | JNum int | JStr string

type_synonym fields = "(string \<times> json) list"

type_synonym body = "string \<rightharpoonup> json"

text \<open>
  What the JavaScript runtime decides and the server does not: how a string parses as a
  date (\<open>Date.parse\<close>, implementation-defined beyond the ISO format), how a string
  converts to a number (\<open>Number(s)\<close>, \<open>None\<close> for \<open>NaN\<close>), how a number prints, the
  offset of local time from UTC (\<open>LocalTZA(t, isUTC)\<close> of ECMAScript), and the files of
  the \<^verbatim>\<open>frontend\<close> directory beside the server, each with the segments of its path
  below the directory and its content, and the directories below it that hold no file.
\<close>

record runtime =
  date_parse :: "string \<Rightarrow> int option"
  to_number :: "string \<Rightarrow> int option"
  number_to_string :: "int \<Rightarrow> string"
  local_tza :: "int \<Rightarrow> bool \<Rightarrow> int"
  frontend :: "(string list \<times> string) list"
  folders :: "string list list"

section \<open>Date objects\<close>

text \<open>
  A \<open>Date\<close> holds a time value, milliseconds since the epoch, or \<open>NaN\<close> (an invalid
  date, \<open>None\<close>). The day and calendar functions are those of ECMAScript (Time Values
  and Time Range, Day Number, Year Number, Month Number, Date Number, MakeDay, MakeDate,
  TimeClip).
\<close>

type_synonym jsdate = "int option"

definition msPerDay :: int where
  "msPerDay = 86400000"

definition day :: "int \<Rightarrow> int" where
  "day t = t div msPerDay"

definition time_within_day :: "int \<Rightarrow> int" where
  "time_within_day t = t mod msPerDay"

definition days_in_year :: "int \<Rightarrow> int" where
  "days_in_year y =
     (if y mod 4 \<noteq> 0 then 365
      else if y mod 100 \<noteq> 0 then 366
      else if y mod 400 \<noteq> 0 then 365
      else 366)"

definition day_from_year :: "int \<Rightarrow> int" where
  "day_from_year y =
     365 * (y - 1970) + (y - 1969) div 4 - (y - 1901) div 100 + (y - 1601) div 400"

text \<open>
  \<open>YearFromTime(t)\<close> is the largest year whose first day is not after \<open>t\<close>. It is
  computed from the day number counted from 1 January 1601, by the cycles of 400, 100, 4
  and 1 years.
\<close>

definition year_from_time :: "int \<Rightarrow> int" where
  "year_from_time t =
     (let n = day t - day_from_year 1601;
          n400 = n div 146097;
          r400 = n mod 146097;
          n100 = min (r400 div 36524) 3;
          r100 = r400 - n100 * 36524;
          n4 = r100 div 1461;
          r4 = r100 mod 1461;
          n1 = min (r4 div 365) 3
      in 1601 + 400 * n400 + 100 * n100 + 4 * n4 + n1)"

definition in_leap_year :: "int \<Rightarrow> int" where
  "in_leap_year t = (if days_in_year (year_from_time t) = 366 then 1 else 0)"

definition day_within_year :: "int \<Rightarrow> int" where
  "day_within_year t = day t - day_from_year (year_from_time t)"

definition month_from_time :: "int \<Rightarrow> int" where
  "month_from_time t =
     (let d = day_within_year t; l = in_leap_year t in
      if d < 31 then 0
      else if d < 59 + l then 1
      else if d < 90 + l then 2
      else if d < 120 + l then 3
      else if d < 151 + l then 4
      else if d < 181 + l then 5
      else if d < 212 + l then 6
      else if d < 243 + l then 7
      else if d < 273 + l then 8
      else if d < 304 + l then 9
      else if d < 334 + l then 10
      else 11)"

definition date_from_time :: "int \<Rightarrow> int" where
  "date_from_time t =
     (let d = day_within_year t; l = in_leap_year t; m = month_from_time t in
      if m = 0 then d + 1
      else if m = 1 then d - 30
      else if m = 2 then d - 58 - l
      else if m = 3 then d - 89 - l
      else if m = 4 then d - 119 - l
      else if m = 5 then d - 150 - l
      else if m = 6 then d - 180 - l
      else if m = 7 then d - 211 - l
      else if m = 8 then d - 242 - l
      else if m = 9 then d - 272 - l
      else if m = 10 then d - 303 - l
      else d - 333 - l)"

text \<open>
  \<open>MakeDay(year, month, date)\<close>: the day number of the first of the month \<open>month\<close> of
  \<open>year\<close> (months beyond 0..11 carry into the year), plus \<open>date - 1\<close>.
\<close>

definition month_start :: "int \<Rightarrow> int \<Rightarrow> int" where
  "month_start l m =
     (if m = 0 then 0
      else if m = 1 then 31
      else if m = 2 then 59 + l
      else if m = 3 then 90 + l
      else if m = 4 then 120 + l
      else if m = 5 then 151 + l
      else if m = 6 then 181 + l
      else if m = 7 then 212 + l
      else if m = 8 then 243 + l
      else if m = 9 then 273 + l
      else if m = 10 then 304 + l
      else 334 + l)"

definition make_day :: "int \<Rightarrow> int \<Rightarrow> int \<Rightarrow> int" where
  "make_day year month date =
     (let ym = year + month div 12;
          mn = month mod 12;
          l = (if days_in_year ym = 366 then 1 else 0)
      in day_from_year ym + month_start l mn + date - 1)"

definition make_date :: "int \<Rightarrow> int \<Rightarrow> int" where
  "make_date d time = d * msPerDay + time"

definition time_clip :: "int \<Rightarrow> jsdate" where
  "time_clip t = (if \<bar>t\<bar> > 8640000000000000 then None else Some t)"

definition local_time :: "runtime \<Rightarrow> int \<Rightarrow> int" where
  "local_time rt t = t + local_tza rt t True"

definition utc :: "runtime \<Rightarrow> int \<Rightarrow> int" where
  "utc rt t = t - local_tza rt t False"

text \<open>\<open>new Date(v)\<close> for a value read from the body (\<open>None\<close> is \<open>undefined\<close>).\<close>

definition new_Date :: "runtime \<Rightarrow> json option \<Rightarrow> jsdate" where
  "new_Date rt v =
     (case v of
        None \<Rightarrow> None
      | Some JNull \<Rightarrow> Some 0
      | Some (JBool b) \<Rightarrow> Some (if b then 1 else 0)
      | Some (JNum n) \<Rightarrow> time_clip n
      | Some (JStr s) \<Rightarrow> (case date_parse rt s of None \<Rightarrow> None | Some t \<Rightarrow> time_clip t))"

text \<open>\<open>d.getDate()\<close>: the day of the month in local time, \<open>NaN\<close> on an invalid date.\<close>

definition getDate :: "runtime \<Rightarrow> jsdate \<Rightarrow> int option" where
  "getDate rt d = (case d of None \<Rightarrow> None | Some t \<Rightarrow> Some (date_from_time (local_time rt t)))"

text \<open>
  \<open>d.setDate(dt)\<close>: the date after the call. The day of the month is replaced in local
  time, the time within the day is kept, and the result is converted back and clipped.
\<close>

definition setDate :: "runtime \<Rightarrow> jsdate \<Rightarrow> int option \<Rightarrow> jsdate" where
  "setDate rt d dt =
     (case d of
        None \<Rightarrow> None
      | Some t0 \<Rightarrow>
          (case dt of
             None \<Rightarrow> None
           | Some n \<Rightarrow>
               (let t = local_time rt t0;
                    newDate = make_date (make_day (year_from_time t) (month_from_time t) n)
                                (time_within_day t)
                in time_clip (utc rt newDate))))"

text \<open>Lines 112 and 113: \<open>new Date(collectionDate)\<close>, then \<open>setDate(getDate() + 35)\<close>.\<close>

definition expiry_of :: "runtime \<Rightarrow> json option \<Rightarrow> jsdate" where
  "expiry_of rt collectionDate =
     (let expiryDate = new_Date rt collectionDate
      in setDate rt expiryDate (map_option (\<lambda>n. n + 35) (getDate rt expiryDate)))"

section \<open>Mongoose: casting, documents and validation\<close>

text \<open>
  Mongoose casts a supplied value to the type of its schema path. A cast yields
  \<open>null\<close>, a value, or fails (\<open>CastError\<close>).
\<close>

datatype 'a cast = Uncastable | Null | Val 'a

definition cast_string :: "runtime \<Rightarrow> json \<Rightarrow> string cast" where
  "cast_string rt v =
     (case v of
        JNull \<Rightarrow> Null
      | JBool b \<Rightarrow> Val (if b then ''true'' else ''false'')
      | JNum n \<Rightarrow> Val (number_to_string rt n)
      | JStr s \<Rightarrow> Val s)"

definition cast_number :: "runtime \<Rightarrow> json \<Rightarrow> int cast" where
  "cast_number rt v =
     (case v of
        JNull \<Rightarrow> Null
      | JBool b \<Rightarrow> Val (if b then 1 else 0)
      | JNum n \<Rightarrow> Val n
      | JStr s \<Rightarrow>
          (if s = [] then Null
           else (case to_number rt s of None \<Rightarrow> Uncastable | Some n \<Rightarrow> Val n)))"

text \<open>
  The date cast reads a numeric string outside the range of years as milliseconds,
  any other string as \<open>new Date\<close> does; a boolean is refused.
\<close>

definition date_of_string :: "runtime \<Rightarrow> string \<Rightarrow> jsdate" where
  "date_of_string rt s =
     (case to_number rt s of
        Some n \<Rightarrow>
          (if n \<ge> 275761 \<or> n < - 271820 then time_clip n else new_Date rt (Some (JStr s)))
      | None \<Rightarrow> new_Date rt (Some (JStr s)))"

definition cast_date :: "runtime \<Rightarrow> json \<Rightarrow> int cast" where
  "cast_date rt v =
     (case v of
        JNull \<Rightarrow> Null
      | JBool b \<Rightarrow> Uncastable
      | JNum n \<Rightarrow> (case time_clip n of None \<Rightarrow> Uncastable | Some t \<Rightarrow> Val t)
      | JStr s \<Rightarrow>
          (if s = [] then Null
           else (case date_of_string rt s of None \<Rightarrow> Uncastable | Some t \<Rightarrow> Val t)))"

text \<open>
  An \<open>ObjectId\<close> is a 96-bit number, written as 24 hexadecimal digits. A string
  casts to an identifier when it is such a string.
\<close>

type_synonym oid = nat

definition hex_digit :: "char \<Rightarrow> nat option" where
  "hex_digit c =
     (let n = (of_char c :: nat) in
      if 48 \<le> n \<and> n \<le> 57 then Some (n - 48)
      else if 97 \<le> n \<and> n \<le> 102 then Some (n - 87)
      else if 65 \<le> n \<and> n \<le> 70 then Some (n - 55)
      else None)"

fun hex_value :: "nat \<Rightarrow> string \<Rightarrow> nat option" where
  "hex_value acc [] = Some acc"
| "hex_value acc (c # cs) =
     (case hex_digit c of None \<Rightarrow> None | Some d \<Rightarrow> hex_value (16 * acc + d) cs)"

definition cast_object_id :: "string \<Rightarrow> oid option" where
  "cast_object_id s = (if length s = 24 then hex_value 0 s else None)"

text \<open>The cast of a body's value to an identifier goes through the value's string form.\<close>

definition cast_id :: "runtime \<Rightarrow> json \<Rightarrow> oid cast" where
  "cast_id rt v =
     (case v of
        JNull \<Rightarrow> Null
      | JBool b \<Rightarrow> Uncastable
      | JNum n \<Rightarrow>
          (case cast_object_id (number_to_string rt n) of None \<Rightarrow> Uncastable | Some i \<Rightarrow> Val i)
      | JStr s \<Rightarrow> (case cast_object_id s of None \<Rightarrow> Uncastable | Some i \<Rightarrow> Val i))"

text \<open>
  Errors. A failed validation names each failing path with the validator that refused
  it; a failed cast of a query or an update names its path; Mongoose refuses some
  documents and updates with an error of its own; a failure of the database driver
  carries the driver's message. The response's \<open>message\<close> is the error's own.
\<close>

datatype verr = Required | CastFailed | NotInEnum

datatype error =
    ValidationError "(string \<times> verr) list"
  | CastError string
  | MongooseError string
  | DriverError string

text \<open>The three schemas (lines 32 to 59).\<close>

record donor =
  d_id :: oid
  d_name :: string
  d_bloodType :: string
  d_phone :: string
  d_email :: string
  d_address :: string
  d_lastDonation :: "int option"
  d_createdAt :: "int option"

record unit_rec =
  u_id :: oid
  u_bloodType :: string
  u_donorId :: string
  u_collectionDate :: int
  u_expiryDate :: int
  u_status :: string
  u_createdAt :: "int option"

text \<open>
  A request is updated without validation (line 171), so each of its fields can come
  to hold \<open>null\<close>.
\<close>

record blood_request =
  r_id :: oid
  r_patientName :: "string option"
  r_bloodType :: "string option"
  r_unitsNeeded :: "int option"
  r_priority :: "string option"
  r_hospital :: "string option"
  r_status :: "string option"
  r_requestDate :: "int option"

record db =
  donors :: "donor list"
  inventory :: "unit_rec list"
  requests :: "blood_request list"

text \<open>
  What a request meets beyond the store: the clock (\<open>Date.now\<close>), the identifier
  generated for a new document, one that no stored document has, and whether the
  \<open>k\<close>-th database call of the handler fails, with the driver's message.
\<close>

record env =
  now :: int
  new_id :: oid
  fault :: "nat \<Rightarrow> string option"

text \<open>
  Building a document from supplied values: a path left \<open>undefined\<close> takes its
  default; a required path must hold a value after the cast, and a required string must
  not be empty.
\<close>

definition required_string :: "runtime \<Rightarrow> json option \<Rightarrow> verr + string" where
  "required_string rt v =
     (case v of
        None \<Rightarrow> Inl Required
      | Some j \<Rightarrow>
          (case cast_string rt j of
             Uncastable \<Rightarrow> Inl CastFailed
           | Null \<Rightarrow> Inl Required
           | Val s \<Rightarrow> if s = [] then Inl Required else Inr s))"

definition required_number :: "runtime \<Rightarrow> json option \<Rightarrow> verr + int" where
  "required_number rt v =
     (case v of
        None \<Rightarrow> Inl Required
      | Some j \<Rightarrow>
          (case cast_number rt j of
             Uncastable \<Rightarrow> Inl CastFailed
           | Null \<Rightarrow> Inl Required
           | Val n \<Rightarrow> Inr n))"

definition required_date :: "runtime \<Rightarrow> json option \<Rightarrow> verr + int" where
  "required_date rt v =
     (case v of
        None \<Rightarrow> Inl Required
      | Some j \<Rightarrow>
          (case cast_date rt j of
             Uncastable \<Rightarrow> Inl CastFailed
           | Null \<Rightarrow> Inl Required
           | Val t \<Rightarrow> Inr t))"

definition optional_date :: "runtime \<Rightarrow> int option \<Rightarrow> json option \<Rightarrow> verr + int option" where
  "optional_date rt dflt v =
     (case v of
        None \<Rightarrow> Inr dflt
      | Some j \<Rightarrow>
          (case cast_date rt j of
             Uncastable \<Rightarrow> Inl CastFailed
           | Null \<Rightarrow> Inr None
           | Val t \<Rightarrow> Inr (Some t)))"

definition in_enum :: "string list \<Rightarrow> string option \<Rightarrow> verr + string option" where
  "in_enum allowed v =
     (case v of
        None \<Rightarrow> Inr None
      | Some s \<Rightarrow> if s \<in> set allowed then Inr (Some s) else Inl NotInEnum)"

definition required_enum :: "runtime \<Rightarrow> string list \<Rightarrow> json option \<Rightarrow> verr + string" where
  "required_enum rt allowed v =
     (case required_string rt v of
        Inl e \<Rightarrow> Inl e
      | Inr s \<Rightarrow> if s \<in> set allowed then Inr s else Inl NotInEnum)"

definition optional_enum ::
  "runtime \<Rightarrow> string list \<Rightarrow> string \<Rightarrow> json option \<Rightarrow> verr + string option" where
  "optional_enum rt allowed dflt v =
     (case v of
        None \<Rightarrow> Inr (Some dflt)
      | Some j \<Rightarrow>
          (case cast_string rt j of
             Uncastable \<Rightarrow> Inl CastFailed
           | Null \<Rightarrow> Inr None
           | Val s \<Rightarrow> in_enum allowed (Some s)))"

definition path_error :: "string \<Rightarrow> verr + 'a \<Rightarrow> (string \<times> verr) list" where
  "path_error p r = (case r of Inl e \<Rightarrow> [(p, e)] | Inr _ \<Rightarrow> [])"

text \<open>
  Every schema has two paths beside the declared ones: \<open>_id\<close>, an identifier,
  generated unless the document is given one, and the version key \<open>__v\<close>, a number
  that an insertion sets to 0. A member of the body with any other name is dropped.
\<close>

definition document_id :: "runtime \<Rightarrow> env \<Rightarrow> json option \<Rightarrow> verr + oid option" where
  "document_id rt e v =
     (case v of
        None \<Rightarrow> Inr (Some (new_id e))
      | Some j \<Rightarrow>
          (case cast_id rt j of
             Uncastable \<Rightarrow> Inl CastFailed
           | Null \<Rightarrow> Inr None
           | Val i \<Rightarrow> Inr (Some i)))"

definition version_key :: "runtime \<Rightarrow> json option \<Rightarrow> verr + unit" where
  "version_key rt v =
     (case v of
        None \<Rightarrow> Inr ()
      | Some j \<Rightarrow> (case cast_number rt j of Uncastable \<Rightarrow> Inl CastFailed | _ \<Rightarrow> Inr ()))"

text \<open>
  \<open>new Donor(req.body)\<close> followed by the validation that \<open>save\<close> runs; a document
  whose \<open>_id\<close> is \<open>null\<close> is refused after it.
\<close>

definition new_donor :: "runtime \<Rightarrow> env \<Rightarrow> fields \<Rightarrow> error + donor" where
  "new_donor rt e b =
     (let ident = document_id rt e (map_of b ''_id'');
          version = version_key rt (map_of b ''__v'');
          name = required_string rt (map_of b ''name'');
          bloodType = required_string rt (map_of b ''bloodType'');
          phone = required_string rt (map_of b ''phone'');
          email = required_string rt (map_of b ''email'');
          address = required_string rt (map_of b ''address'');
          lastDonation = optional_date rt None (map_of b ''lastDonation'');
          createdAt = optional_date rt (Some (now e)) (map_of b ''createdAt'');
          errs = path_error ''_id'' ident @ path_error ''__v'' version
               @ path_error ''name'' name @ path_error ''bloodType'' bloodType
               @ path_error ''phone'' phone @ path_error ''email'' email
               @ path_error ''address'' address @ path_error ''lastDonation'' lastDonation
               @ path_error ''createdAt'' createdAt
      in if errs \<noteq> [] then Inl (ValidationError errs)
         else case projr ident of
                None \<Rightarrow> Inl (MongooseError ''document must have an _id before saving'')
              | Some i \<Rightarrow>
                  Inr \<lparr> d_id = i, d_name = projr name, d_bloodType = projr bloodType,
                        d_phone = projr phone, d_email = projr email,
                        d_address = projr address, d_lastDonation = projr lastDonation,
                        d_createdAt = projr createdAt \<rparr>)"

text \<open>
  \<open>new Inventory({bloodType, donorId, collectionDate, expiryDate})\<close> (lines 115 to
  120) and its validation. \<open>expiryDate\<close> arrives as a \<open>Date\<close> object, refused by the
  cast when it is invalid. \<open>status\<close> and \<open>createdAt\<close> are not passed and take their
  defaults.
\<close>

definition new_unit ::
  "runtime \<Rightarrow> env \<Rightarrow> json option \<Rightarrow> json option \<Rightarrow> json option \<Rightarrow> jsdate \<Rightarrow> error + unit_rec" where
  "new_unit rt e bloodType donorId collectionDate expiryDate =
     (let bt = required_string rt bloodType;
          di = required_string rt donorId;
          cd = required_date rt collectionDate;
          ed = (case expiryDate of None \<Rightarrow> Inl CastFailed | Some t \<Rightarrow> Inr t);
          errs = path_error ''bloodType'' bt @ path_error ''donorId'' di
               @ path_error ''collectionDate'' cd @ path_error ''expiryDate'' ed
      in if errs = []
         then Inr \<lparr> u_id = new_id e, u_bloodType = projr bt, u_donorId = projr di,
                    u_collectionDate = projr cd, u_expiryDate = projr ed,
                    u_status = ''Available'', u_createdAt = Some (now e) \<rparr>
         else Inl (ValidationError errs))"

text \<open>\<open>new Request(req.body)\<close> and its validation.\<close>

definition new_request :: "runtime \<Rightarrow> env \<Rightarrow> fields \<Rightarrow> error + blood_request" where
  "new_request rt e b =
     (let ident = document_id rt e (map_of b ''_id'');
          version = version_key rt (map_of b ''__v'');
          patientName = required_string rt (map_of b ''patientName'');
          bloodType = required_string rt (map_of b ''bloodType'');
          unitsNeeded = required_number rt (map_of b ''unitsNeeded'');
          priority = required_enum rt [''Low'', ''Medium'', ''High'', ''Critical'']
                       (map_of b ''priority'');
          hospital = required_string rt (map_of b ''hospital'');
          status = optional_enum rt [''Pending'', ''Fulfilled'', ''Cancelled''] ''Pending''
                     (map_of b ''status'');
          requestDate = optional_date rt (Some (now e)) (map_of b ''requestDate'');
          errs = path_error ''_id'' ident @ path_error ''__v'' version
               @ path_error ''patientName'' patientName @ path_error ''bloodType'' bloodType
               @ path_error ''unitsNeeded'' unitsNeeded @ path_error ''priority'' priority
               @ path_error ''hospital'' hospital @ path_error ''status'' status
               @ path_error ''requestDate'' requestDate
      in if errs \<noteq> [] then Inl (ValidationError errs)
         else case projr ident of
                None \<Rightarrow> Inl (MongooseError ''document must have an _id before saving'')
              | Some i \<Rightarrow>
                  Inr \<lparr> r_id = i, r_patientName = Some (projr patientName),
                        r_bloodType = Some (projr bloodType),
                        r_unitsNeeded = Some (projr unitsNeeded),
                        r_priority = Some (projr priority),
                        r_hospital = Some (projr hospital),
                        r_status = projr status, r_requestDate = projr requestDate \<rparr>)"

section \<open>Mongoose: queries\<close>

text \<open>
  \<open>Model.find().sort({key: -1})\<close>: every document of the collection, by \<open>key\<close>
  descending. \<open>null\<close> sorts below every date, as \<open>None\<close> does. The order among
  equal keys is the database's choice.
\<close>

definition find_sorted ::
  "string option \<Rightarrow> ('a \<Rightarrow> int option) \<Rightarrow> 'a list \<Rightarrow> error + 'a list" where
  "find_sorted f key xs =
     (case f of
        Some m \<Rightarrow> Inl (DriverError m)
      | None \<Rightarrow> Inr (rev (sort_key key xs)))"

text \<open>\<open>doc.save()\<close> of a new, validated document.\<close>

definition insert_doc :: "string option \<Rightarrow> 'a \<Rightarrow> 'a list \<Rightarrow> error + 'a list" where
  "insert_doc f x xs =
     (case f of
        Some m \<Rightarrow> Inl (DriverError m)
      | None \<Rightarrow> Inr (xs @ [x]))"

text \<open>
  The same with an identifier that the body supplied: the database refuses a second
  document with an identifier it holds.
\<close>

definition insert_with_id ::
  "string option \<Rightarrow> ('a \<Rightarrow> oid) \<Rightarrow> 'a \<Rightarrow> 'a list \<Rightarrow> error + 'a list" where
  "insert_with_id f idf x xs =
     (case f of
        Some m \<Rightarrow> Inl (DriverError m)
      | None \<Rightarrow>
          if idf x \<in> idf ` set xs then Inl (DriverError ''E11000 duplicate key error'')
          else Inr (xs @ [x]))"

definition save_new ::
  "string option \<Rightarrow> fields \<Rightarrow> ('a \<Rightarrow> oid) \<Rightarrow> 'a \<Rightarrow> 'a list \<Rightarrow> error + 'a list" where
  "save_new f b idf x xs =
     (if map_of b ''_id'' = None then insert_doc f x xs else insert_with_id f idf x xs)"

fun delete_first :: "('a \<Rightarrow> bool) \<Rightarrow> 'a list \<Rightarrow> 'a list" where
  "delete_first P [] = []"
| "delete_first P (x # xs) = (if P x then xs else x # delete_first P xs)"

fun replace_first :: "('a \<Rightarrow> bool) \<Rightarrow> 'a \<Rightarrow> 'a list \<Rightarrow> 'a list" where
  "replace_first P y [] = []"
| "replace_first P y (x # xs) = (if P x then y # xs else x # replace_first P y xs)"

text \<open>
  \<open>Model.findByIdAndDelete(id)\<close>: the path parameter is cast to an identifier first;
  the result of the deletion (the removed document or \<open>null\<close>) is what the handlers
  drop.
\<close>

definition find_by_id_and_delete ::
  "string option \<Rightarrow> ('a \<Rightarrow> oid) \<Rightarrow> string \<Rightarrow> 'a list \<Rightarrow> error + 'a list" where
  "find_by_id_and_delete f idf rid xs =
     (case cast_object_id rid of
        None \<Rightarrow> Inl (CastError ''_id'')
      | Some i \<Rightarrow>
          (case f of
             Some m \<Rightarrow> Inl (DriverError m)
           | None \<Rightarrow> Inr (delete_first (\<lambda>x. idf x = i) xs)))"

text \<open>
  The update document of \<open>findByIdAndUpdate\<close>. The members of the body are cast in
  their order, each to the type of the schema path it names, and the first failure is
  thrown; a member that names no path is dropped. A member whose name begins with
  \<open>$\<close> is an update operator of MongoDB, which needs an object for its value and is
  refused with any other. No validator runs.
\<close>

definition operator_key :: "string \<Rightarrow> bool" where
  "operator_key k = (case k of [] \<Rightarrow> False | c # _ \<Rightarrow> c = CHR ''$'')"

definition update_cast_fails :: "runtime \<Rightarrow> string \<times> json \<Rightarrow> bool" where
  "update_cast_fails rt kv =
     (let k = fst kv; v = snd kv in
      if k \<in> set [''patientName'', ''bloodType'', ''priority'', ''hospital'', ''status'']
      then cast_string rt v = Uncastable
      else if k = ''unitsNeeded'' \<or> k = ''__v'' then cast_number rt v = Uncastable
      else if k = ''requestDate'' then cast_date rt v = Uncastable
      else if k = ''_id'' then cast_id rt v = Uncastable
      else False)"

text \<open>What an update sets a path to: nothing when the body does not name the path.\<close>

definition set_value :: "(json \<Rightarrow> 'a cast) \<Rightarrow> json option \<Rightarrow> 'a option option" where
  "set_value c v =
     (case v of
        None \<Rightarrow> None
      | Some j \<Rightarrow> (case c j of Val x \<Rightarrow> Some (Some x) | _ \<Rightarrow> Some None))"

definition assign :: "'a option \<Rightarrow> 'a \<Rightarrow> 'a" where
  "assign new old = (case new of None \<Rightarrow> old | Some x \<Rightarrow> x)"

record request_update =
  up_id :: "oid option option"
  up_patientName :: "string option option"
  up_bloodType :: "string option option"
  up_unitsNeeded :: "int option option"
  up_priority :: "string option option"
  up_hospital :: "string option option"
  up_status :: "string option option"
  up_requestDate :: "int option option"

definition cast_update :: "runtime \<Rightarrow> fields \<Rightarrow> error + request_update" where
  "cast_update rt b =
     (case find (update_cast_fails rt) b of
        Some kv \<Rightarrow> Inl (CastError (fst kv))
      | None \<Rightarrow>
          if list_ex (\<lambda>kv. operator_key (fst kv)) b
          then Inl (MongooseError ''Invalid atomic update value'')
          else Inr \<lparr> up_id = set_value (cast_id rt) (map_of b ''_id''),
                     up_patientName = set_value (cast_string rt) (map_of b ''patientName''),
                     up_bloodType = set_value (cast_string rt) (map_of b ''bloodType''),
                     up_unitsNeeded = set_value (cast_number rt) (map_of b ''unitsNeeded''),
                     up_priority = set_value (cast_string rt) (map_of b ''priority''),
                     up_hospital = set_value (cast_string rt) (map_of b ''hospital''),
                     up_status = set_value (cast_string rt) (map_of b ''status''),
                     up_requestDate = set_value (cast_date rt) (map_of b ''requestDate'') \<rparr>)"

definition apply_update :: "request_update \<Rightarrow> blood_request \<Rightarrow> blood_request" where
  "apply_update u r =
     r \<lparr> r_patientName := assign (up_patientName u) (r_patientName r),
         r_bloodType := assign (up_bloodType u) (r_bloodType r),
         r_unitsNeeded := assign (up_unitsNeeded u) (r_unitsNeeded r),
         r_priority := assign (up_priority u) (r_priority r),
         r_hospital := assign (up_hospital u) (r_hospital r),
         r_status := assign (up_status u) (r_status r),
         r_requestDate := assign (up_requestDate u) (r_requestDate r) \<rparr>"

text \<open>
  \<open>Request.findByIdAndUpdate(id, body, {new: true})\<close>: the identifier is cast, then
  the update; the call yields the document after the update, or \<open>null\<close> when no
  document has the identifier, and the collection after the call. The database refuses
  an update that would give the document another \<open>_id\<close>.
\<close>

definition changes_id :: "request_update \<Rightarrow> blood_request \<Rightarrow> bool" where
  "changes_id u r = (case up_id u of None \<Rightarrow> False | Some j \<Rightarrow> j \<noteq> Some (r_id r))"

definition find_by_id_and_update ::
  "string option \<Rightarrow> runtime \<Rightarrow> string \<Rightarrow> fields \<Rightarrow> blood_request list
     \<Rightarrow> error + (blood_request option \<times> blood_request list)" where
  "find_by_id_and_update f rt rid b rs =
     (case cast_object_id rid of
        None \<Rightarrow> Inl (CastError ''_id'')
      | Some i \<Rightarrow>
          (case cast_update rt b of
             Inl e \<Rightarrow> Inl e
           | Inr u \<Rightarrow>
               (case f of
                  Some m \<Rightarrow> Inl (DriverError m)
                | None \<Rightarrow>
                    (case find (\<lambda>r. r_id r = i) rs of
                       None \<Rightarrow> Inr (None, rs)
                     | Some r \<Rightarrow>
                         if changes_id u r
                         then Inl (DriverError ''the update would modify the immutable field _id'')
                         else Inr (Some (apply_update u r),
                                   replace_first (\<lambda>r. r_id r = i) (apply_update u r) rs)))))"

text \<open>
  \<open>Donor.findOne({_id: donorId})\<close> with the value read from the body: it is cast to an
  identifier through its string form; \<open>null\<close> and \<open>undefined\<close> match no document.
\<close>

definition find_one_donor ::
  "string option \<Rightarrow> runtime \<Rightarrow> json option \<Rightarrow> donor list \<Rightarrow> error + donor option" where
  "find_one_donor f rt donorId ds =
     (case donorId of
        None \<Rightarrow> (case f of Some m \<Rightarrow> Inl (DriverError m) | None \<Rightarrow> Inr None)
      | Some j \<Rightarrow>
          (case cast_string rt j of
             Uncastable \<Rightarrow> Inl (CastError ''_id'')
           | Null \<Rightarrow> (case f of Some m \<Rightarrow> Inl (DriverError m) | None \<Rightarrow> Inr None)
           | Val s \<Rightarrow>
               (case cast_object_id s of
                  None \<Rightarrow> Inl (CastError ''_id'')
                | Some i \<Rightarrow>
                    (case f of
                       Some m \<Rightarrow> Inl (DriverError m)
                     | None \<Rightarrow> Inr (find (\<lambda>d. d_id d = i) ds)))))"

text \<open>
  \<open>donor.lastDonation = collectionDate\<close> casts the value; \<open>donor.save()\<close> of the
  loaded document validates it again (the assigned date, the required paths) and writes
  it back.
\<close>

definition stored_donor_errors :: "donor \<Rightarrow> (string \<times> verr) list" where
  "stored_donor_errors d =
     path_error ''name'' (if d_name d = [] then Inl Required else Inr ())
     @ path_error ''bloodType'' (if d_bloodType d = [] then Inl Required else Inr ())
     @ path_error ''phone'' (if d_phone d = [] then Inl Required else Inr ())
     @ path_error ''email'' (if d_email d = [] then Inl Required else Inr ())
     @ path_error ''address'' (if d_address d = [] then Inl Required else Inr ())"

definition save_donor ::
  "string option \<Rightarrow> runtime \<Rightarrow> donor \<Rightarrow> json option \<Rightarrow> donor list \<Rightarrow> error + donor list" where
  "save_donor f rt d collectionDate ds =
     (let lastDonation = optional_date rt None collectionDate;
          errs = stored_donor_errors d @ path_error ''lastDonation'' lastDonation
      in if errs \<noteq> [] then Inl (ValidationError errs)
         else (case f of
                 Some m \<Rightarrow> Inl (DriverError m)
               | None \<Rightarrow>
                   Inr (replace_first (\<lambda>x. d_id x = d_id d)
                          (d \<lparr> d_lastDonation := projr lastDonation \<rparr>) ds)))"

section \<open>The handlers\<close>

text \<open>
  A response is a JSON body with its status, a document sent from the front-end
  directory, a redirection to a path, the empty answer to a CORS preflight, an error
  page of Express itself with its status (HTML, no JSON), or a status without any body,
  the answer to a \<open>HEAD\<close>. A handler takes the store and returns the response with
  the store after it.

  The JSON bodies: \<open>Failure err\<close> is \<open>{success: false, message: err.message}\<close>;
  \<open>Donors\<close>, \<open>Units\<close> and \<open>Requests\<close> are the bare arrays of the list handlers;
  \<open>DonorCreated d\<close> is \<open>{success: true, donor: d}\<close>, and likewise \<open>UnitCreated\<close>
  (\<open>bloodUnit\<close>), \<open>RequestCreated\<close> and \<open>RequestUpdated\<close> (\<open>request\<close>, which is
  \<open>null\<close> for \<open>None\<close>); \<open>Message m\<close> is \<open>{success: true, message: m}\<close>.
\<close>

datatype payload =
    Failure error
  | Donors "donor list"
  | Units "unit_rec list"
  | Requests "blood_request list"
  | DonorCreated donor
  | UnitCreated unit_rec
  | RequestCreated blood_request
  | RequestUpdated "blood_request option"
  | Message string

datatype response =
    Json nat payload
  | Document nat string
  | Redirect "string list"
  | NoContent
  | ErrorPage nat
  | Bodiless nat

text \<open>The \<open>success\<close> field of a JSON body; the lists carry none.\<close>

definition success :: "payload \<Rightarrow> bool option" where
  "success p =
     (case p of
        Failure _ \<Rightarrow> Some False
      | Donors _ \<Rightarrow> None
      | Units _ \<Rightarrow> None
      | Requests _ \<Rightarrow> None
      | _ \<Rightarrow> Some True)"

text \<open>Lines 69 to 76.\<close>

definition get_donors :: "env \<Rightarrow> db \<Rightarrow> response \<times> db" where
  "get_donors e s =
     (case find_sorted (fault e 0) d_createdAt (donors s) of
        Inr ds \<Rightarrow> (Json 200 (Donors ds), s)
      | Inl err \<Rightarrow> (Json 500 (Failure err), s))"

text \<open>Lines 78 to 86.\<close>

definition post_donors :: "runtime \<Rightarrow> env \<Rightarrow> db \<Rightarrow> fields \<Rightarrow> response \<times> db" where
  "post_donors rt e s b =
     (case new_donor rt e b of
        Inl err \<Rightarrow> (Json 400 (Failure err), s)
      | Inr donor \<Rightarrow>
          (case save_new (fault e 0) b d_id donor (donors s) of
             Inl err \<Rightarrow> (Json 400 (Failure err), s)
           | Inr ds \<Rightarrow> (Json 200 (DonorCreated donor), s \<lparr> donors := ds \<rparr>)))"

text \<open>Lines 88 to 95.\<close>

definition delete_donor :: "env \<Rightarrow> db \<Rightarrow> string \<Rightarrow> response \<times> db" where
  "delete_donor e s rid =
     (case find_by_id_and_delete (fault e 0) d_id rid (donors s) of
        Inr ds \<Rightarrow> (Json 200 (Message ''Donor deleted successfully''), s \<lparr> donors := ds \<rparr>)
      | Inl err \<Rightarrow> (Json 500 (Failure err), s))"

text \<open>Lines 98 to 105.\<close>

definition get_inventory :: "env \<Rightarrow> db \<Rightarrow> response \<times> db" where
  "get_inventory e s =
     (case find_sorted (fault e 0) u_createdAt (inventory s) of
        Inr us \<Rightarrow> (Json 200 (Units us), s)
      | Inl err \<Rightarrow> (Json 500 (Failure err), s))"

text \<open>
  Lines 124 to 132: the donor is looked up; when one is found its \<open>lastDonation\<close> is
  assigned and it is saved. A failed lookup is caught (line 130) and dropped. The save
  is neither awaited nor returned to the promise that line 130 catches: when it fails,
  the store is as it was and the rejection has no handler. The result is the store
  after the save has run, and that rejection.
\<close>

definition update_last_donation ::
  "runtime \<Rightarrow> env \<Rightarrow> db \<Rightarrow> json option \<Rightarrow> json option \<Rightarrow> db \<times> error option" where
  "update_last_donation rt e s donorId collectionDate =
     (case find_one_donor (fault e 1) rt donorId (donors s) of
        Inl err \<Rightarrow> (s, None)
      | Inr None \<Rightarrow> (s, None)
      | Inr (Some donor) \<Rightarrow>
          (case save_donor (fault e 2) rt donor collectionDate (donors s) of
             Inl err \<Rightarrow> (s, Some err)
           | Inr ds \<Rightarrow> (s \<lparr> donors := ds \<rparr>, None)))"

text \<open>Lines 107 to 138: the response and the store.\<close>

definition post_inventory :: "runtime \<Rightarrow> env \<Rightarrow> db \<Rightarrow> body \<Rightarrow> response \<times> db" where
  "post_inventory rt e s b =
     (let bloodType = b ''bloodType'';
          donorId = b ''donorId'';
          collectionDate = b ''collectionDate'';
          expiryDate = expiry_of rt collectionDate
      in case new_unit rt e bloodType donorId collectionDate expiryDate of
           Inl err \<Rightarrow> (Json 400 (Failure err), s)
         | Inr bloodUnit \<Rightarrow>
             (case insert_doc (fault e 0) bloodUnit (inventory s) of
                Inl err \<Rightarrow> (Json 400 (Failure err), s)
              | Inr us \<Rightarrow>
                  (Json 200 (UnitCreated bloodUnit),
                   fst (update_last_donation rt e (s \<lparr> inventory := us \<rparr>) donorId
                          collectionDate))))"

text \<open>
  Lines 107 to 138: the rejection that the handler leaves without a handler. Node ends
  the process on it.
\<close>

definition post_inventory_unhandled :: "runtime \<Rightarrow> env \<Rightarrow> db \<Rightarrow> body \<Rightarrow> error option" where
  "post_inventory_unhandled rt e s b =
     (let bloodType = b ''bloodType'';
          donorId = b ''donorId'';
          collectionDate = b ''collectionDate'';
          expiryDate = expiry_of rt collectionDate
      in case new_unit rt e bloodType donorId collectionDate expiryDate of
           Inl err \<Rightarrow> None
         | Inr bloodUnit \<Rightarrow>
             (case insert_doc (fault e 0) bloodUnit (inventory s) of
                Inl err \<Rightarrow> None
              | Inr us \<Rightarrow>
                  snd (update_last_donation rt e (s \<lparr> inventory := us \<rparr>) donorId
                         collectionDate)))"

text \<open>Lines 140 to 147.\<close>

definition delete_inventory :: "env \<Rightarrow> db \<Rightarrow> string \<Rightarrow> response \<times> db" where
  "delete_inventory e s rid =
     (case find_by_id_and_delete (fault e 0) u_id rid (inventory s) of
        Inr us \<Rightarrow> (Json 200 (Message ''Blood unit deleted successfully''), s \<lparr> inventory := us \<rparr>)
      | Inl err \<Rightarrow> (Json 500 (Failure err), s))"

text \<open>Lines 150 to 157.\<close>

definition get_requests :: "env \<Rightarrow> db \<Rightarrow> response \<times> db" where
  "get_requests e s =
     (case find_sorted (fault e 0) r_requestDate (requests s) of
        Inr rs \<Rightarrow> (Json 200 (Requests rs), s)
      | Inl err \<Rightarrow> (Json 500 (Failure err), s))"

text \<open>Lines 159 to 167.\<close>

definition post_requests :: "runtime \<Rightarrow> env \<Rightarrow> db \<Rightarrow> fields \<Rightarrow> response \<times> db" where
  "post_requests rt e s b =
     (case new_request rt e b of
        Inl err \<Rightarrow> (Json 400 (Failure err), s)
      | Inr request \<Rightarrow>
          (case save_new (fault e 0) b r_id request (requests s) of
             Inl err \<Rightarrow> (Json 400 (Failure err), s)
           | Inr rs \<Rightarrow> (Json 200 (RequestCreated request), s \<lparr> requests := rs \<rparr>)))"

text \<open>Lines 169 to 180.\<close>

definition put_request :: "runtime \<Rightarrow> env \<Rightarrow> db \<Rightarrow> string \<Rightarrow> fields \<Rightarrow> response \<times> db" where
  "put_request rt e s rid b =
     (case find_by_id_and_update (fault e 0) rt rid b (requests s) of
        Inr (request, rs) \<Rightarrow> (Json 200 (RequestUpdated request), s \<lparr> requests := rs \<rparr>)
      | Inl err \<Rightarrow> (Json 500 (Failure err), s))"

text \<open>Lines 182 to 189.\<close>

definition delete_request :: "env \<Rightarrow> db \<Rightarrow> string \<Rightarrow> response \<times> db" where
  "delete_request e s rid =
     (case find_by_id_and_delete (fault e 0) r_id rid (requests s) of
        Inr rs \<Rightarrow> (Json 200 (Message ''Request deleted successfully''), s \<lparr> requests := rs \<rparr>)
      | Inl err \<Rightarrow> (Json 500 (Failure err), s))"

text \<open>
  Lines 192 to 199: \<open>res.sendFile\<close> of \<^verbatim>\<open>frontend/index.html\<close>; a missing file ends
  in Express's 404 page.
\<close>

definition file_at :: "runtime \<Rightarrow> string list \<Rightarrow> string option" where
  "file_at rt p = map_of (frontend rt) p"

definition send_index :: "runtime \<Rightarrow> response" where
  "send_index rt =
     (case file_at rt [''index.html''] of
        Some doc \<Rightarrow> Document 200 doc
      | None \<Rightarrow> ErrorPage 404)"

section \<open>The application: middleware and routes in order\<close>

datatype http_method = GET | HEAD | POST | PUT | DELETE | PATCH | OPTIONS

text \<open>
  A request: its HTTP verb; the segments of its path (\<open>/api/donors/5\<close> is
  \<open>[''api'', ''donors'', ''5'']\<close>, the root is \<open>[]\<close>) and whether the path ends in
  a slash, as the root does; and what \<open>express.json()\<close> (line 14) makes of its body:
  the parsed object (the empty one for a request without a body), or the status of the
  error the parser raises (400 for text that is not JSON, 413 for a body over the size
  limit).
\<close>

datatype parsed = Refused nat | Parsed fields

record request =
  rq_method :: http_method
  rq_path :: "string list"
  rq_slash :: bool
  rq_body :: parsed

definition lower_char :: "char \<Rightarrow> char" where
  "lower_char c =
     (let n = (of_char c :: nat) in
      if 65 \<le> n \<and> n \<le> 90
      then Char (digit0 c) (digit1 c) (digit2 c) (digit3 c) (digit4 c) True (digit6 c) (digit7 c)
      else c)"

definition lower :: "string \<Rightarrow> string" where
  "lower s = map lower_char s"

text \<open>
  The routes of lines 69 to 189. Express compares the fixed segments of a route without
  regard to case and allows a slash at the end; a parameter \<open>:id\<close> takes one segment
  as it is. A \<open>HEAD\<close> request is served by the \<open>GET\<close> route of its path.
\<close>

datatype route =
    GetDonors | PostDonors | DeleteDonor string
  | GetInventory | PostInventory | DeleteInventory string
  | GetRequests | PostRequests | PutRequest string | DeleteRequest string

definition is_get :: "http_method \<Rightarrow> bool" where
  "is_get m = (m = GET \<or> m = HEAD)"

definition route_of :: "http_method \<Rightarrow> string list \<Rightarrow> route option" where
  "route_of m p =
     (case p of
        [a, c] \<Rightarrow>
          (if lower a \<noteq> ''api'' then None
           else if lower c = ''donors'' then
             (if is_get m then Some GetDonors else if m = POST then Some PostDonors else None)
           else if lower c = ''inventory'' then
             (if is_get m then Some GetInventory else if m = POST then Some PostInventory
              else None)
           else if lower c = ''requests'' then
             (if is_get m then Some GetRequests else if m = POST then Some PostRequests
              else None)
           else None)
      | [a, c, i] \<Rightarrow>
          (if lower a \<noteq> ''api'' then None
           else if lower c = ''donors'' then
             (if m = DELETE then Some (DeleteDonor i) else None)
           else if lower c = ''inventory'' then
             (if m = DELETE then Some (DeleteInventory i) else None)
           else if lower c = ''requests'' then
             (if m = PUT then Some (PutRequest i)
              else if m = DELETE then Some (DeleteRequest i) else None)
           else None)
      | _ \<Rightarrow> None)"

text \<open>
  A handler's outcome: its response, the store after it, and the rejection it has left
  without a handler, if any.
\<close>

definition settled :: "response \<times> db \<Rightarrow> response \<times> db \<times> error option" where
  "settled x = (fst x, snd x, None)"

definition run_route ::
  "runtime \<Rightarrow> env \<Rightarrow> db \<Rightarrow> fields \<Rightarrow> route \<Rightarrow> response \<times> db \<times> error option" where
  "run_route rt e s b r =
     (case r of
        GetDonors \<Rightarrow> settled (get_donors e s)
      | PostDonors \<Rightarrow> settled (post_donors rt e s b)
      | DeleteDonor i \<Rightarrow> settled (delete_donor e s i)
      | GetInventory \<Rightarrow> settled (get_inventory e s)
      | PostInventory \<Rightarrow>
          (fst (post_inventory rt e s (map_of b)), snd (post_inventory rt e s (map_of b)),
           post_inventory_unhandled rt e s (map_of b))
      | DeleteInventory i \<Rightarrow> settled (delete_inventory e s i)
      | GetRequests \<Rightarrow> settled (get_requests e s)
      | PostRequests \<Rightarrow> settled (post_requests rt e s b)
      | PutRequest i \<Rightarrow> settled (put_request rt e s i b)
      | DeleteRequest i \<Rightarrow> settled (delete_request e s i))"

text \<open>
  \<open>express.static\<close> (line 17) takes a \<open>GET\<close> or \<open>HEAD\<close>. A path with a segment
  that begins with a dot is passed on. A path that ends in a slash is answered with the
  \<^verbatim>\<open>index.html\<close> of the directory it names; a path that names a file, with the file;
  a path that names a directory, with a redirection to the path with a slash. Anything
  else is passed on to the routes.
\<close>

datatype static_result = Served string | Moved | Next

definition dot_segment :: "string \<Rightarrow> bool" where
  "dot_segment seg = (case seg of c # _ # _ \<Rightarrow> c = CHR ''.'' | _ \<Rightarrow> False)"

definition is_directory :: "runtime \<Rightarrow> string list \<Rightarrow> bool" where
  "is_directory rt p =
     (list_ex (\<lambda>f. length p < length (fst f) \<and> take (length p) (fst f) = p) (frontend rt)
      \<or> list_ex (\<lambda>d. length p \<le> length d \<and> take (length p) d = p) (folders rt))"

definition serve_static :: "runtime \<Rightarrow> http_method \<Rightarrow> string list \<Rightarrow> bool \<Rightarrow> static_result" where
  "serve_static rt m p slash =
     (if \<not> is_get m then Next
      else if list_ex dot_segment p then Next
      else if slash \<or> p = [] then
        (case file_at rt (p @ [''index.html'']) of Some doc \<Rightarrow> Served doc | None \<Rightarrow> Next)
      else
        (case file_at rt p of
           Some doc \<Rightarrow> Served doc
         | None \<Rightarrow> if is_directory rt p then Moved else Next))"

text \<open>The answer to a \<open>HEAD\<close> is the answer to the \<open>GET\<close> without its body.\<close>

definition bodiless :: "response \<Rightarrow> response" where
  "bodiless r =
     (case r of
        Json st _ \<Rightarrow> Bodiless st
      | Document st _ \<Rightarrow> Bodiless st
      | ErrorPage st \<Rightarrow> Bodiless st
      | _ \<Rightarrow> r)"

definition for_method :: "http_method \<Rightarrow> response \<Rightarrow> response" where
  "for_method m r = (if m = HEAD then bodiless r else r)"

text \<open>
  The application: \<open>cors()\<close> (line 13) ends an \<open>OPTIONS\<close> preflight itself;
  \<open>express.json()\<close> (line 14) answers a body it refuses with an error page; then the
  static files, the API routes, the root route and the catch-all (both \<open>app.get\<close>);
  a request that none of them takes gets Express's 404 page.
\<close>

definition handle :: "runtime \<Rightarrow> env \<Rightarrow> db \<Rightarrow> request \<Rightarrow> response \<times> db \<times> error option" where
  "handle rt e s rq =
     (if rq_method rq = OPTIONS then (NoContent, s, None)
      else case rq_body rq of
             Refused st \<Rightarrow> (for_method (rq_method rq) (ErrorPage st), s, None)
           | Parsed b \<Rightarrow>
               (case serve_static rt (rq_method rq) (rq_path rq) (rq_slash rq) of
                  Served doc \<Rightarrow> (for_method (rq_method rq) (Document 200 doc), s, None)
                | Moved \<Rightarrow> (Redirect (rq_path rq), s, None)
                | Next \<Rightarrow>
                    (case route_of (rq_method rq) (rq_path rq) of
                       Some r \<Rightarrow>
                         (for_method (rq_method rq) (fst (run_route rt e s b r)),
                          snd (run_route rt e s b r))
                     | None \<Rightarrow>
                         (for_method (rq_method rq)
                            (if is_get (rq_method rq) then send_index rt else ErrorPage 404),
                          s, None))))"

section \<open>A runtime, a store and requests to run the handlers on\<close>

text \<open>
  A runtime in the UTC time zone that parses the date \<^verbatim>\<open>2024-01-15\<close> (midnight UTC,
  1705276800000 ms), converts strings of decimal digits to numbers and prints numbers
  in decimal. The front-end directory holds the entry document, a style sheet, a
  script in a directory of its own, and an empty directory \<^verbatim>\<open>uploads\<close>.
\<close>

fun dec_value :: "nat \<Rightarrow> string \<Rightarrow> nat option" where
  "dec_value acc [] = Some acc"
| "dec_value acc (c # cs) =
     (let n = (of_char c :: nat) in
      if 48 \<le> n \<and> n \<le> 57 then dec_value (10 * acc + (n - 48)) cs else None)"

function decimal :: "nat \<Rightarrow> string" where
  "decimal n =
     (if n < 10 then [''0123456789'' ! n]
      else decimal (n div 10) @ [''0123456789'' ! (n mod 10)])"
  by pat_completeness auto
termination
  by (relation "measure id") auto

declare decimal.simps [simp del]

definition example_runtime :: runtime where
  "example_runtime =
     \<lparr> date_parse = map_of [(''2024-01-15'', 1705276800000)],
       to_number = (\<lambda>s. if s = [] then Some 0 else map_option int (dec_value 0 s)),
       number_to_string = (\<lambda>n. if n < 0 then ''-'' @ decimal (nat (- n)) else decimal (nat n)),
       local_tza = (\<lambda>t u. 0),
       frontend = [([''index.html''], ''<html>Blood Bank</html>''),
                   ([''style.css''], ''body { margin: 0 }''),
                   ([''assets'', ''app.js''], ''load()'')],
       folders = [[''uploads'']] \<rparr>"

definition example_env :: env where
  "example_env = \<lparr> now = 1705320000000, new_id = 31457165686801271483383735799,
                    fault = (\<lambda>k. None) \<rparr>"

definition example_donor :: donor where
  "example_donor =
     \<lparr> d_id = 31457165686801271483383735798, d_name = ''Asha'', d_bloodType = ''O+'',
       d_phone = ''555-0101'', d_email = ''asha@example.org'', d_address = ''12 Lake Road'',
       d_lastDonation = None, d_createdAt = Some 1700000000000 \<rparr>"

definition example_request :: blood_request where
  "example_request =
     \<lparr> r_id = 31457165686801271483383735798, r_patientName = Some ''Ravi'',
       r_bloodType = Some ''O+'', r_unitsNeeded = Some 2, r_priority = Some ''High'',
       r_hospital = Some ''City Hospital'', r_status = Some ''Pending'',
       r_requestDate = Some 1700000000000 \<rparr>"

definition example_db :: db where
  "example_db = \<lparr> donors = [example_donor], inventory = [], requests = [example_request] \<rparr>"

definition unit_body :: body where
  "unit_body =
     [''bloodType'' \<mapsto> JStr ''O+'', ''donorId'' \<mapsto> JStr ''65a4c1f0e4b0a1b2c3d4e5f6'',
      ''collectionDate'' \<mapsto> JStr ''2024-01-15'']"

definition example_unit :: unit_rec where
  "example_unit =
     \<lparr> u_id = 31457165686801271483383735799, u_bloodType = ''O+'',
       u_donorId = ''65a4c1f0e4b0a1b2c3d4e5f6'', u_collectionDate = 1705276800000,
       u_expiryDate = 1708300800000, u_status = ''Available'',
       u_createdAt = Some 1705320000000 \<rparr>"

definition donor_named :: "json \<Rightarrow> fields" where
  "donor_named n =
     [(''name'', n), (''bloodType'', JStr ''A+''), (''phone'', JStr ''555-0102''),
      (''email'', JStr ''meera@example.org''), (''address'', JStr ''4 Hill Street'')]"

definition donor_body :: fields where
  "donor_body = donor_named (JStr ''Meera'')"

definition new_example_donor :: "oid \<Rightarrow> string \<Rightarrow> donor" where
  "new_example_donor i n =
     \<lparr> d_id = i, d_name = n, d_bloodType = ''A+'', d_phone = ''555-0102'',
       d_email = ''meera@example.org'', d_address = ''4 Hill Street'', d_lastDonation = None,
       d_createdAt = Some 1705320000000 \<rparr>"

definition unit_body_with_status :: body where
  "unit_body_with_status = unit_body(''status'' \<mapsto> JStr ''Used'', ''expiryDate'' \<mapsto> JNum 0)"

definition two_donors :: db where
  "two_donors = \<lparr> donors = [example_donor \<lparr> d_createdAt := None \<rparr>, example_donor,
                               example_donor \<lparr> d_createdAt := Some 1705000000000 \<rparr>],
                   inventory = [], requests = [example_request] \<rparr>"

definition lookup_failing_env :: env where
  "lookup_failing_env =
     example_env \<lparr> fault := (\<lambda>k. if k = 1 then Some ''connection lost'' else None) \<rparr>"

definition save_failing_env :: env where
  "save_failing_env =
     example_env \<lparr> fault := (\<lambda>k. if k = 0 then Some ''connection lost'' else None) \<rparr>"

definition donor_save_failing_env :: env where
  "donor_save_failing_env =
     example_env \<lparr> fault := (\<lambda>k. if k = 2 then Some ''connection lost'' else None) \<rparr>"

definition status_body :: fields where
  "status_body = [(''status'', JStr ''Fulfilled''), (''unitsNeeded'', JStr ''3'')]"

definition api :: "http_method \<Rightarrow> string list \<Rightarrow> fields \<Rightarrow> request" where
  "api m p b = \<lparr> rq_method = m, rq_path = p, rq_slash = False, rq_body = Parsed b \<rparr>"

section \<open>Predicates of the statements below\<close>

text \<open>
  The date cast takes the numeric-string branch on this value: a string that converts
  to a number outside the range of years.
\<close>

definition reads_as_milliseconds :: "runtime \<Rightarrow> json option \<Rightarrow> bool" where
  "reads_as_milliseconds rt v =
     (case v of
        Some (JStr s) \<Rightarrow>
          (case to_number rt s of Some n \<Rightarrow> n \<ge> 275761 \<or> n < - 271820 | None \<Rightarrow> False)
      | _ \<Rightarrow> False)"







text \<open>The body names only these paths.\<close>

definition names_only :: "string list \<Rightarrow> fields \<Rightarrow> bool" where
  "names_only paths b = list_all (\<lambda>kv. fst kv \<in> set paths) b"

definition donor_paths :: "string list" where
  "donor_paths =
     [''name'', ''bloodType'', ''phone'', ''email'', ''address'', ''lastDonation'', ''createdAt'']"

definition request_paths :: "string list" where
  "request_paths =
     [''patientName'', ''bloodType'', ''unitsNeeded'', ''priority'', ''hospital'', ''status'',
      ''requestDate'']"

text \<open>
  What a field of a request holds after an update whose body supplies \<open>v\<close> for it:
  the old value when the body does not name the field, else the supplied value after
  the cast of the field's type (\<open>null\<close> stays \<open>null\<close>).
\<close>

definition field_after :: "(json \<Rightarrow> 'a cast) \<Rightarrow> json option \<Rightarrow> 'a option \<Rightarrow> 'a option" where
  "field_after c v old =
     (case v of
        None \<Rightarrow> old
      | Some j \<Rightarrow> (case c j of Val x \<Rightarrow> Some x | _ \<Rightarrow> None))"

text \<open>
  The condition of the claim on donor registration, in the specification's words: the
  body supplies all required fields with correct types, that is, each of the five
  required paths of the donor schema holds a string.
\<close>

definition is_string :: "json option \<Rightarrow> bool" where
  "is_string v = (case v of Some (JStr _) \<Rightarrow> True | _ \<Rightarrow> False)"

definition supplies_required_fields :: "body \<Rightarrow> bool" where
  "supplies_required_fields b =
     (is_string (b ''name'') \<and> is_string (b ''bloodType'') \<and> is_string (b ''phone'')
      \<and> is_string (b ''email'') \<and> is_string (b ''address''))"

text \<open>
  What the schema does accept: a value that casts to a string that is not empty, and,
  for a date path without \<open>required\<close>, nothing, \<open>null\<close> or a value that casts to
  a date.
\<close>

definition nonempty_string :: "runtime \<Rightarrow> json option \<Rightarrow> bool" where
  "nonempty_string rt v =
     (case v of
        None \<Rightarrow> False
      | Some j \<Rightarrow> (case cast_string rt j of Val s \<Rightarrow> s \<noteq> [] | _ \<Rightarrow> False))"

definition date_or_absent :: "runtime \<Rightarrow> json option \<Rightarrow> bool" where
  "date_or_absent rt v = (case v of None \<Rightarrow> True | Some j \<Rightarrow> cast_date rt j \<noteq> Uncastable)"

definition donor_accepted :: "runtime \<Rightarrow> body \<Rightarrow> bool" where
  "donor_accepted rt b =
     (nonempty_string rt (b ''name'') \<and> nonempty_string rt (b ''bloodType'')
      \<and> nonempty_string rt (b ''phone'') \<and> nonempty_string rt (b ''email'')
      \<and> nonempty_string rt (b ''address'') \<and> date_or_absent rt (b ''lastDonation'')
      \<and> date_or_absent rt (b ''createdAt''))"





section \<open>Calendar lemmas\<close>

lemma month_from_time_range: "0 \<le> month_from_time t \<and> month_from_time t \<le> 11"
  by (simp add: month_from_time_def Let_def)

lemma month_start_date_from_time:
  "month_start (in_leap_year t) (month_from_time t) + date_from_time t = day_within_year t + 1"
  by (simp add: month_start_def date_from_time_def month_from_time_def Let_def)

lemma make_day_of_date:
  "make_day (year_from_time t) (month_from_time t) (date_from_time t + k) = day t + k"
proof -
  have r: "0 \<le> month_from_time t" "month_from_time t \<le> 11"
    using month_from_time_range [of t] by simp_all
  then have dm: "month_from_time t div 12 = 0" "month_from_time t mod 12 = month_from_time t"
    by simp_all
  have "make_day (year_from_time t) (month_from_time t) (date_from_time t + k)
        = day_from_year (year_from_time t)
          + (month_start (in_leap_year t) (month_from_time t) + date_from_time t) + k - 1"
    by (simp add: make_day_def dm in_leap_year_def Let_def)
  also have "\<dots> = day_from_year (year_from_time t) + day_within_year t + k"
    by (simp add: month_start_date_from_time)
  also have "\<dots> = day t + k"
    by (simp add: day_within_year_def)
  finally show ?thesis .
qed

lemma make_date_day: "make_date (day t + k) (time_within_day t) = t + k * msPerDay"
  by (simp add: make_date_def day_def time_within_day_def algebra_simps)

lemma setDate_getDate_plus:
  "setDate rt (Some t) (map_option (\<lambda>n. n + k) (getDate rt (Some t)))
     = time_clip (utc rt (local_time rt t + k * msPerDay))"
  by (simp add: setDate_def getDate_def Let_def make_day_of_date make_date_day)

text \<open>
  The year computed from a time is the year of ECMAScript: its first day is not after
  the day of the time, and the first day of the next year is.
\<close>

lemma day_from_year_1601: "day_from_year 1601 = - 134774"
  by (simp add: day_from_year_def)

lemma day_from_year_cycles:
  assumes "0 \<le> b" "b \<le> 3" "0 \<le> c" "c \<le> 24" "0 \<le> d" "d \<le> 3"
  shows "day_from_year (1601 + 400 * a + 100 * b + 4 * c + d)
         = 146097 * a + 36524 * b + 1461 * c + 365 * d - 134774"
proof -
  let ?y = "1601 + 400 * a + 100 * b + 4 * c + d"
  have "?y - 1969 = 4 * (100 * a + 25 * b + c - 92) + d" by simp
  then have 1: "(?y - 1969) div 4 = 100 * a + 25 * b + c - 92"
    using assms by (intro int_div_pos_eq [where r = d]) auto
  have "?y - 1901 = 100 * (4 * a + b - 3) + (4 * c + d)" by simp
  then have 2: "(?y - 1901) div 100 = 4 * a + b - 3"
    using assms by (intro int_div_pos_eq [where r = "4 * c + d"]) auto
  have "?y - 1601 = 400 * a + (100 * b + 4 * c + d)" by simp
  then have 3: "(?y - 1601) div 400 = a"
    using assms by (intro int_div_pos_eq [where r = "100 * b + 4 * c + d"]) auto
  show ?thesis
    unfolding day_from_year_def 1 2 3 by simp
qed

lemma year_from_time_bounds:
  "day_from_year (year_from_time t) \<le> day t \<and> day t < day_from_year (year_from_time t + 1)"
proof -
  define n where "n = day t - day_from_year 1601"
  define a where "a = n div 146097"
  define r where "r = n mod 146097"
  define q where "q = r div 36524"
  define b where "b = min q 3"
  define r2 where "r2 = r - b * 36524"
  define c where "c = r2 div 1461"
  define r4 where "r4 = r2 mod 1461"
  define p where "p = r4 div 365"
  define d where "d = min p 3"
  have Y: "year_from_time t = 1601 + 400 * a + 100 * b + 4 * c + d"
    unfolding year_from_time_def Let_def n_def a_def r_def q_def b_def r2_def c_def r4_def
      p_def d_def
    by (rule refl)
  have n: "day t = 146097 * a + r - 134774" "0 \<le> r" "r < 146097"
    by (simp_all add: n_def a_def r_def day_from_year_1601)
  have q: "r = 36524 * q + r mod 36524" "0 \<le> r mod 36524" "r mod 36524 < 36524"
    by (simp_all add: q_def)
  have q_range: "0 \<le> q" "q \<le> 4"
    using q n(2,3) by linarith+
  have b: "0 \<le> b" "b \<le> 3"
    using q_range by (simp_all add: b_def)
  have r2: "0 \<le> r2" "r2 \<le> 36524" "b < 3 \<Longrightarrow> r2 < 36524"
    using q q_range n(3) by (auto simp: r2_def b_def min_def)
  have c: "r2 = 1461 * c + r4" "0 \<le> r4" "r4 < 1461"
    by (simp_all add: c_def r4_def)
  have c_range: "0 \<le> c" "c \<le> 24"
    using c r2 by linarith+
  have p: "r4 = 365 * p + r4 mod 365" "0 \<le> r4 mod 365" "r4 mod 365 < 365"
    by (simp_all add: p_def)
  have p_range: "0 \<le> p" "p \<le> 4"
    using p c(2,3) by linarith+
  have d: "0 \<le> d" "d \<le> 3" "365 * d \<le> r4" "d < 3 \<Longrightarrow> r4 < 365 * d + 365"
    using p p_range by (auto simp: d_def min_def)
  have r: "r = 36524 * b + 1461 * c + r4"
    using c(1) by (simp add: r2_def)
  have lower: "day_from_year (year_from_time t) = 146097 * a + 36524 * b + 1461 * c + 365 * d - 134774"
    unfolding Y by (rule day_from_year_cycles [OF b c_range d(1,2)])
  have upper: "day t < day_from_year (year_from_time t + 1)"
  proof -
    consider "d < 3" | "d = 3" "c < 24" | "d = 3" "c = 24" "b < 3" | "d = 3" "c = 24" "b = 3"
      using d(2) c_range(2) b(2) by linarith
    then show ?thesis
    proof cases
      case 1
      have "year_from_time t + 1 = 1601 + 400 * a + 100 * b + 4 * c + (d + 1)"
        by (simp add: Y)
      moreover have "day_from_year (1601 + 400 * a + 100 * b + 4 * c + (d + 1))
          = 146097 * a + 36524 * b + 1461 * c + 365 * (d + 1) - 134774"
        using 1 d(1) by (intro day_from_year_cycles b c_range) auto
      ultimately show ?thesis
        using n(1) r d(4) [OF 1] by simp
    next
      case 2
      have "year_from_time t + 1 = 1601 + 400 * a + 100 * b + 4 * (c + 1) + 0"
        by (simp add: Y 2)
      moreover have "day_from_year (1601 + 400 * a + 100 * b + 4 * (c + 1) + 0)
          = 146097 * a + 36524 * b + 1461 * (c + 1) + 365 * 0 - 134774"
        using 2 c_range(1) by (intro day_from_year_cycles b) auto
      ultimately show ?thesis
        using n(1) r c(3) by simp
    next
      case 3
      have "year_from_time t + 1 = 1601 + 400 * a + 100 * (b + 1) + 4 * 0 + 0"
        by (simp add: Y 3)
      moreover have "day_from_year (1601 + 400 * a + 100 * (b + 1) + 4 * 0 + 0)
          = 146097 * a + 36524 * (b + 1) + 1461 * 0 + 365 * 0 - 134774"
        using 3 b(1) by (intro day_from_year_cycles) auto
      ultimately show ?thesis
        using n(1) r r2(3) [OF 3(3)] c(1) 3 by simp
    next
      case 4
      have "year_from_time t + 1 = 1601 + 400 * (a + 1) + 100 * 0 + 4 * 0 + 0"
        by (simp add: Y 4)
      moreover have "day_from_year (1601 + 400 * (a + 1) + 100 * 0 + 4 * 0 + 0)
          = 146097 * (a + 1) + 36524 * 0 + 1461 * 0 + 365 * 0 - 134774"
        by (intro day_from_year_cycles) auto
      ultimately show ?thesis
        using n(1) r c(3) 4 by simp
    qed
  qed
  show ?thesis
    using lower upper n(1) r d(3) by simp
qed

text \<open>29 February 2024, 31 December 2024 and 1 January 1601, by year, month and date.\<close>

lemma calendar_examples:
  "year_from_time 1709164800000 = 2024 \<and> month_from_time 1709164800000 = 1
   \<and> date_from_time 1709164800000 = 29"
  "year_from_time 1735689599999 = 2024 \<and> month_from_time 1735689599999 = 11
   \<and> date_from_time 1735689599999 = 31"
  "year_from_time (- 11644473600000) = 1601 \<and> month_from_time (- 11644473600000) = 0
   \<and> date_from_time (- 11644473600000) = 1"
  by code_simp+

text \<open>
  In a time zone without offset from UTC, \<open>setDate(getDate() + k)\<close> adds \<open>k\<close> times
  86400000 ms.
\<close>

lemma setDate_getDate_plus_utc:
  assumes "local_tza rt = (\<lambda>t u. 0)"
  shows "setDate rt (Some t) (map_option (\<lambda>n. n + k) (getDate rt (Some t)))
         = time_clip (t + k * 86400000)"
  by (simp add: setDate_getDate_plus utc_def local_time_def assms msPerDay_def)

section \<open>Document construction and the inventory handler\<close>

lemma path_error_Nil: "path_error p r = [] \<longleftrightarrow> (\<exists>x. r = Inr x)"
  by (cases r) (simp_all add: path_error_def)

lemma new_unit_Inr:
  assumes "new_unit rt e bt di cd ed = Inr u"
  shows "u_status u = ''Available''"
    and "ed = Some (u_expiryDate u)"
    and "required_date rt cd = Inr (u_collectionDate u)"
    and "required_string rt bt = Inr (u_bloodType u)"
    and "required_string rt di = Inr (u_donorId u)"
    and "u_id u = new_id e"
    and "u_createdAt u = Some (now e)"
  using assms
  by (auto simp: new_unit_def Let_def path_error_Nil split: if_splits option.splits)

lemma update_last_donation_frame:
  "inventory (fst (update_last_donation rt e s di cd)) = inventory s"
  "requests (fst (update_last_donation rt e s di cd)) = requests s"
  by (simp_all add: update_last_donation_def split: sum.splits option.splits)

lemma post_inventory_created:
  assumes "post_inventory rt e s b = (Json 200 (UnitCreated u), s')"
  shows "new_unit rt e (b ''bloodType'') (b ''donorId'') (b ''collectionDate'')
           (expiry_of rt (b ''collectionDate'')) = Inr u"
    and "fault e 0 = None"
    and "s' = fst (update_last_donation rt e (s \<lparr> inventory := inventory s @ [u] \<rparr>)
                     (b ''donorId'') (b ''collectionDate''))"
  using assms
  by (auto simp: post_inventory_def Let_def insert_doc_def split: sum.splits option.splits)

lemma expiry_of_Some:
  assumes "expiry_of rt v = Some x"
  shows "\<exists>d. new_Date rt v = Some d
           \<and> x = utc rt (make_date (day (local_time rt d) + 35) (time_within_day (local_time rt d)))"
proof (cases "new_Date rt v")
  case None
  with assms show ?thesis by (simp add: expiry_of_def Let_def setDate_def)
next
  case (Some d)
  with assms have "time_clip (utc rt (local_time rt d + 35 * msPerDay)) = Some x"
    by (simp add: expiry_of_def Let_def setDate_getDate_plus)
  then have "x = utc rt (local_time rt d + 35 * msPerDay)"
    by (simp add: time_clip_def split: if_splits)
  with Some show ?thesis by (simp add: make_date_day)
qed

lemma required_date_new_Date:
  assumes "required_date rt v = Inr c" and "\<not> reads_as_milliseconds rt v"
  shows "new_Date rt v = Some c"
  using assms
  by (auto simp: required_date_def cast_date_def date_of_string_def new_Date_def
      reads_as_milliseconds_def
      split: option.splits json.splits cast.splits if_splits)

section \<open>The handlers on the example inputs\<close>

lemma expiry_of_example:
  "expiry_of example_runtime (unit_body ''collectionDate'') = Some 1708300800000"
  by (simp add: expiry_of_def unit_body_def new_Date_def example_runtime_def time_clip_def
      setDate_getDate_plus utc_def local_time_def msPerDay_def)

lemma new_unit_example:
  "new_unit example_runtime example_env (unit_body ''bloodType'') (unit_body ''donorId'')
     (unit_body ''collectionDate'') (expiry_of example_runtime (unit_body ''collectionDate''))
   = Inr example_unit"
  unfolding expiry_of_example
  by (simp add: unit_body_def example_runtime_def time_clip_def new_Date_def
      new_unit_def required_string_def required_date_def cast_string_def cast_date_def
      date_of_string_def path_error_def example_unit_def example_env_def)

lemma post_inventory_example:
  "post_inventory example_runtime example_env example_db unit_body =
     (Json 200 (UnitCreated example_unit),
      example_db \<lparr> inventory := [example_unit],
                   donors := [example_donor \<lparr> d_lastDonation := Some 1705276800000 \<rparr>] \<rparr>)"
proof -
  have "update_last_donation example_runtime example_env
          (example_db \<lparr> inventory := [example_unit] \<rparr>)
          (unit_body ''donorId'') (unit_body ''collectionDate'')
        = (example_db \<lparr> inventory := [example_unit],
                        donors := [example_donor \<lparr> d_lastDonation := Some 1705276800000 \<rparr>] \<rparr>,
           None)"
    by (simp add: example_env_def update_last_donation_def find_one_donor_def unit_body_def
        cast_string_def cast_object_id_def hex_digit_def example_db_def example_donor_def
        save_donor_def stored_donor_errors_def path_error_def optional_date_def cast_date_def
        date_of_string_def example_runtime_def new_Date_def time_clip_def)
  moreover have "insert_doc (fault example_env 0) example_unit (inventory example_db)
        = Inr [example_unit]"
    by (simp add: insert_doc_def example_env_def example_db_def)
  ultimately show ?thesis
    by (simp add: post_inventory_def Let_def new_unit_example)
qed

lemma example_not_milliseconds:
  "\<not> reads_as_milliseconds example_runtime (unit_body ''collectionDate'')"
  by (simp add: reads_as_milliseconds_def unit_body_def example_runtime_def)

lemma new_Date_example:
  "new_Date example_runtime (unit_body ''collectionDate'') = Some 1705276800000"
  by (simp add: unit_body_def example_runtime_def time_clip_def new_Date_def)

lemma utc_example: "utc example_runtime t = t" "local_time example_runtime t = t"
  by (simp_all add: utc_def local_time_def example_runtime_def)

section \<open>Inventory creation\<close>

text \<open>
  C1. Every unit that \<open>POST /api/inventory\<close> creates carries, in the response and in
  the store, the expiry date 35 calendar days after its collection date: with \<open>d\<close> the
  date that line 112 reads from the supplied \<open>collectionDate\<close>, the expiry date is the
  local day of \<open>d\<close> plus 35 at the same local time of day, converted back from local
  time. \<open>d\<close> is also the collection date stored on the unit, unless the supplied value
  is a string that the schema's date cast reads as a number of milliseconds.
\<close>

theorem post_inventory_expiry_35_days:
  assumes "post_inventory rt e s b = (Json 200 (UnitCreated u), s')"
  shows "\<exists>d. new_Date rt (b ''collectionDate'') = Some d
           \<and> u_expiryDate u
               = utc rt (make_date (day (local_time rt d) + 35) (time_within_day (local_time rt d)))
           \<and> inventory s' = inventory s @ [u]
           \<and> (\<not> reads_as_milliseconds rt (b ''collectionDate'') \<longrightarrow> u_collectionDate u = d)"
proof -
  note c = post_inventory_created [OF assms]
  note n = new_unit_Inr [OF c(1)]
  from n(2) obtain d where d: "new_Date rt (b ''collectionDate'') = Some d"
    and x: "u_expiryDate u
             = utc rt (make_date (day (local_time rt d) + 35) (time_within_day (local_time rt d)))"
    using expiry_of_Some by blast
  have i: "inventory s' = inventory s @ [u]"
    by (simp add: c(3) update_last_donation_frame)
  have "u_collectionDate u = d" if "\<not> reads_as_milliseconds rt (b ''collectionDate'')"
    using required_date_new_Date [OF n(3) that] d by simp
  with d x i show ?thesis by blast
qed

theorem post_inventory_expiry_35_days_witness:
  "new_Date example_runtime (unit_body ''collectionDate'') = Some 1705276800000
   \<and> u_collectionDate example_unit = 1705276800000
   \<and> u_expiryDate example_unit = 1705276800000 + 35 * 86400000
   \<and> inventory (snd (post_inventory example_runtime example_env example_db unit_body))
       = inventory example_db @ [example_unit]"
proof -
  obtain d where "new_Date example_runtime (unit_body ''collectionDate'') = Some d"
    and "u_expiryDate example_unit
          = utc example_runtime (make_date (day (local_time example_runtime d) + 35)
              (time_within_day (local_time example_runtime d)))"
    and "inventory (snd (post_inventory example_runtime example_env example_db unit_body))
          = inventory example_db @ [example_unit]"
    and "u_collectionDate example_unit = d"
    using post_inventory_expiry_35_days [OF post_inventory_example] example_not_milliseconds
    by (auto simp: post_inventory_example)
  then show ?thesis
    by (simp add: new_Date_example utc_example make_date_day msPerDay_def)
qed

text \<open>
  C9. The handler of \<open>POST /api/inventory\<close> reads \<open>bloodType\<close>, \<open>donorId\<close> and
  \<open>collectionDate\<close> from the body and nothing else: two bodies that agree on these
  three have the same outcome, whatever \<open>status\<close> or \<open>expiryDate\<close> they carry, and
  every unit created has the status \<open>Available\<close> and the expiry date computed by the
  server.
\<close>

theorem post_inventory_reads_three_fields:
  assumes "b' ''bloodType'' = b ''bloodType''"
      and "b' ''donorId'' = b ''donorId''"
      and "b' ''collectionDate'' = b ''collectionDate''"
  shows "post_inventory rt e s b' = post_inventory rt e s b
         \<and> (\<forall>u s'. post_inventory rt e s b = (Json 200 (UnitCreated u), s')
               \<longrightarrow> u_status u = ''Available''
                 \<and> expiry_of rt (b ''collectionDate'') = Some (u_expiryDate u))"
proof -
  have "post_inventory rt e s b' = post_inventory rt e s b"
    by (simp add: post_inventory_def assms)
  moreover have "u_status u = ''Available''
      \<and> expiry_of rt (b ''collectionDate'') = Some (u_expiryDate u)"
    if "post_inventory rt e s b = (Json 200 (UnitCreated u), s')" for u s'
    using new_unit_Inr(1,2) [OF post_inventory_created(1) [OF that]] by simp
  ultimately show ?thesis by blast
qed

theorem post_inventory_reads_three_fields_witness:
  "post_inventory example_runtime example_env example_db unit_body_with_status
     = post_inventory example_runtime example_env example_db unit_body
   \<and> fst (post_inventory example_runtime example_env example_db unit_body_with_status)
       = Json 200 (UnitCreated example_unit)
   \<and> u_status example_unit = ''Available''
   \<and> u_expiryDate example_unit = 1708300800000"
proof -
  have a: "unit_body_with_status ''bloodType'' = unit_body ''bloodType''"
    "unit_body_with_status ''donorId'' = unit_body ''donorId''"
    "unit_body_with_status ''collectionDate'' = unit_body ''collectionDate''"
    by (simp_all add: unit_body_with_status_def)
  show ?thesis
    using post_inventory_reads_three_fields [OF a, of example_runtime example_env example_db]
    by (simp add: post_inventory_example expiry_of_example)
qed

section \<open>Listing\<close>

lemma find_sorted_descending:
  assumes "find_sorted None key xs = Inr ys"
  shows "mset ys = mset xs" and "sorted_wrt (\<lambda>a b. key b \<le> key a) ys"
proof -
  from assms have ys: "ys = rev (sort_key key xs)"
    by (simp add: find_sorted_def)
  show "mset ys = mset xs"
    by (simp add: ys)
  have "sorted (map key (sort_key key xs))"
    by (rule sorted_sort_key)
  then have "sorted_wrt (\<lambda>a b. key a \<le> key b) (sort_key key xs)"
    by (simp add: sorted_map)
  then show "sorted_wrt (\<lambda>a b. key b \<le> key a) ys"
    by (simp add: ys sorted_wrt_rev)
qed

lemma get_donors_two_donors:
  "get_donors example_env two_donors
   = (Json 200 (Donors [example_donor \<lparr> d_createdAt := Some 1705000000000 \<rparr>, example_donor,
                        example_donor \<lparr> d_createdAt := None \<rparr>]), two_donors)"
  by (simp add: get_donors_def find_sorted_def example_env_def two_donors_def example_donor_def)

text \<open>
  C7. While the database answers, \<open>GET /api/donors\<close> and \<open>GET /api/inventory\<close>
  return every document of their collection ordered by \<open>createdAt\<close> descending, and
  \<open>GET /api/requests\<close> returns every request ordered by \<open>requestDate\<close> descending:
  the list returned has the documents of the collection, each as often as the collection
  has it, and no document comes before one with a later date.
\<close>

theorem lists_sorted_descending:
  assumes "fault e 0 = None"
  shows "\<exists>ds us rs.
           get_donors e s = (Json 200 (Donors ds), s)
           \<and> mset ds = mset (donors s)
           \<and> sorted_wrt (\<lambda>a b. d_createdAt b \<le> d_createdAt a) ds
           \<and> get_inventory e s = (Json 200 (Units us), s)
           \<and> mset us = mset (inventory s)
           \<and> sorted_wrt (\<lambda>a b. u_createdAt b \<le> u_createdAt a) us
           \<and> get_requests e s = (Json 200 (Requests rs), s)
           \<and> mset rs = mset (requests s)
           \<and> sorted_wrt (\<lambda>a b. r_requestDate b \<le> r_requestDate a) rs"
proof -
  obtain ds where ds: "find_sorted None d_createdAt (donors s) = Inr ds"
    by (simp add: find_sorted_def)
  obtain us where us: "find_sorted None u_createdAt (inventory s) = Inr us"
    by (simp add: find_sorted_def)
  obtain rs where rs: "find_sorted None r_requestDate (requests s) = Inr rs"
    by (simp add: find_sorted_def)
  have "get_donors e s = (Json 200 (Donors ds), s)"
    by (simp add: get_donors_def assms ds)
  moreover have "get_inventory e s = (Json 200 (Units us), s)"
    by (simp add: get_inventory_def assms us)
  moreover have "get_requests e s = (Json 200 (Requests rs), s)"
    by (simp add: get_requests_def assms rs)
  ultimately show ?thesis
    using find_sorted_descending [OF ds] find_sorted_descending [OF us]
      find_sorted_descending [OF rs]
    by blast
qed

theorem lists_sorted_descending_witness:
  "\<exists>ds. get_donors example_env two_donors = (Json 200 (Donors ds), two_donors)
        \<and> ds = [example_donor \<lparr> d_createdAt := Some 1705000000000 \<rparr>, example_donor,
                 example_donor \<lparr> d_createdAt := None \<rparr>]
        \<and> mset ds = mset (donors two_donors)
        \<and> sorted_wrt (\<lambda>a b. d_createdAt b \<le> d_createdAt a) ds"
proof -
  have f: "fault example_env 0 = None"
    by (simp add: example_env_def)
  show ?thesis
    using lists_sorted_descending [OF f, of two_donors]
    by (auto simp: get_donors_two_donors)
qed

text \<open>
  C10. The three list handlers are read-only: whatever the store and whether or not the
  database answers, the store after \<open>GET /api/donors\<close>, \<open>GET /api/inventory\<close> or
  \<open>GET /api/requests\<close> is the store before it, in all three collections.
\<close>

theorem list_handlers_read_only:
  "snd (get_donors e s) = s \<and> snd (get_inventory e s) = s \<and> snd (get_requests e s) = s"
  by (simp add: get_donors_def get_inventory_def get_requests_def split: sum.splits)

section \<open>Deleting\<close>

lemma delete_first_unmatched: "\<forall>x \<in> set xs. \<not> P x \<Longrightarrow> delete_first P xs = xs"
  by (induction xs) auto

lemma find_by_id_and_delete_ok:
  assumes "cast_object_id rid = Some i"
  shows "find_by_id_and_delete None idf rid xs = Inr (delete_first (\<lambda>x. idf x = i) xs)"
  by (simp add: find_by_id_and_delete_def assms)

lemma cast_object_id_example:
  "cast_object_id ''65a4c1f0e4b0a1b2c3d4e5f7'' = Some 31457165686801271483383735799"
  "cast_object_id ''65a4c1f0e4b0a1b2c3d4e5f6'' = Some 31457165686801271483383735798"
  by (simp_all add: cast_object_id_def hex_digit_def)

text \<open>
  C4. For a well-formed identifier, while the database answers, each of the three
  \<open>DELETE\<close> handlers responds with status 200, \<open>success: true\<close> and its
  deleted-successfully message. The response does not depend on the store, so it is the
  same whether a document was removed or none had the identifier; in the latter case the
  store is unchanged.
\<close>

theorem delete_unmatched_id_succeeds:
  assumes "cast_object_id rid = Some i" and "fault e 0 = None"
  shows "fst (delete_donor e s rid) = Json 200 (Message ''Donor deleted successfully'')
       \<and> fst (delete_inventory e s rid) = Json 200 (Message ''Blood unit deleted successfully'')
       \<and> fst (delete_request e s rid) = Json 200 (Message ''Request deleted successfully'')
       \<and> (i \<notin> d_id ` set (donors s) \<longrightarrow> snd (delete_donor e s rid) = s)
       \<and> (i \<notin> u_id ` set (inventory s) \<longrightarrow> snd (delete_inventory e s rid) = s)
       \<and> (i \<notin> r_id ` set (requests s) \<longrightarrow> snd (delete_request e s rid) = s)"
proof -
  have "delete_first (\<lambda>x. d_id x = i) (donors s) = donors s" if "i \<notin> d_id ` set (donors s)"
    using that by (intro delete_first_unmatched) auto
  moreover have "delete_first (\<lambda>x. u_id x = i) (inventory s) = inventory s"
    if "i \<notin> u_id ` set (inventory s)"
    using that by (intro delete_first_unmatched) auto
  moreover have "delete_first (\<lambda>x. r_id x = i) (requests s) = requests s"
    if "i \<notin> r_id ` set (requests s)"
    using that by (intro delete_first_unmatched) auto
  ultimately show ?thesis
    by (simp add: delete_donor_def delete_inventory_def delete_request_def assms(2)
        find_by_id_and_delete_ok [OF assms(1)])
qed

theorem delete_unmatched_id_succeeds_witness:
  "delete_donor example_env example_db ''65a4c1f0e4b0a1b2c3d4e5f7''
     = (Json 200 (Message ''Donor deleted successfully''), example_db)
   \<and> delete_inventory example_env example_db ''65a4c1f0e4b0a1b2c3d4e5f7''
     = (Json 200 (Message ''Blood unit deleted successfully''), example_db)
   \<and> delete_request example_env example_db ''65a4c1f0e4b0a1b2c3d4e5f7''
     = (Json 200 (Message ''Request deleted successfully''), example_db)
   \<and> fst (delete_donor example_env example_db ''65a4c1f0e4b0a1b2c3d4e5f6'')
     = Json 200 (Message ''Donor deleted successfully'')
   \<and> snd (delete_donor example_env example_db ''65a4c1f0e4b0a1b2c3d4e5f6'')
     = example_db \<lparr> donors := [] \<rparr>"
proof -
  have f: "fault example_env 0 = None"
    by (simp add: example_env_def)
  have m: "31457165686801271483383735799 \<notin> d_id ` set (donors example_db)"
    "31457165686801271483383735799 \<notin> u_id ` set (inventory example_db)"
    "31457165686801271483383735799 \<notin> r_id ` set (requests example_db)"
    by (simp_all add: example_db_def example_donor_def example_request_def)
  have "snd (delete_donor example_env example_db ''65a4c1f0e4b0a1b2c3d4e5f6'')
     = example_db \<lparr> donors := [] \<rparr>"
    by (simp add: delete_donor_def find_by_id_and_delete_def cast_object_id_example f
        example_db_def example_donor_def)
  then show ?thesis
    using delete_unmatched_id_succeeds [OF cast_object_id_example(1) f, of example_db]
      delete_unmatched_id_succeeds [OF cast_object_id_example(2) f, of example_db] m
    by (simp add: prod_eq_iff)
qed

section \<open>The donor update after an inventory creation\<close>

lemma required_date_optional_date:
  "required_date rt v = Inr c \<Longrightarrow> optional_date rt dflt v = Inr (Some c)"
  by (auto simp: required_date_def optional_date_def split: option.splits cast.splits)

lemma post_inventory_persisted:
  assumes "new_unit rt e (b ''bloodType'') (b ''donorId'') (b ''collectionDate'')
             (expiry_of rt (b ''collectionDate'')) = Inr u"
      and "fault e 0 = None"
  shows "post_inventory rt e s b
         = (Json 200 (UnitCreated u),
            fst (update_last_donation rt e (s \<lparr> inventory := inventory s @ [u] \<rparr>)
                   (b ''donorId'') (b ''collectionDate'')))"
    and "post_inventory_unhandled rt e s b
         = snd (update_last_donation rt e (s \<lparr> inventory := inventory s @ [u] \<rparr>)
                  (b ''donorId'') (b ''collectionDate''))"
  by (simp_all add: post_inventory_def post_inventory_unhandled_def Let_def assms insert_doc_def)

lemma find_one_donor_by_id:
  assumes "cast_object_id sid = Some i"
  shows "find_one_donor None rt (Some (JStr sid)) ds = Inr (find (\<lambda>x. d_id x = i) ds)"
  by (simp add: find_one_donor_def cast_string_def assms)

lemma save_donor_ok:
  assumes "stored_donor_errors d = []" and "optional_date rt None cd = Inr l"
  shows "save_donor None rt d cd ds
         = Inr (replace_first (\<lambda>x. d_id x = d_id d) (d \<lparr> d_lastDonation := l \<rparr>) ds)"
  by (simp add: save_donor_def assms path_error_def)

lemma save_donor_driver_error:
  assumes "stored_donor_errors d = []" and "optional_date rt None cd = Inr l"
  shows "save_donor (Some m) rt d cd ds = Inl (DriverError m)"
  by (simp add: save_donor_def assms path_error_def)

lemma replace_first_split:
  assumes "find P xs = Some x"
  shows "\<exists>pre post. xs = pre @ x # post \<and> (\<forall>z \<in> set pre. \<not> P z)
           \<and> replace_first P y xs = pre @ y # post"
  using assms
proof (induction xs)
  case Nil
  then show ?case by simp
next
  case (Cons a xs)
  show ?case
  proof (cases "P a")
    case True
    with Cons.prems have "a = x" by simp
    with True show ?thesis by (intro exI [of _ "[]"] exI [of _ xs]) simp
  next
    case False
    with Cons obtain pre post where "xs = pre @ x # post" "\<forall>z \<in> set pre. \<not> P z"
      "replace_first P y xs = pre @ y # post"
      by auto
    with False show ?thesis by (intro exI [of _ "a # pre"] exI [of _ post]) simp
  qed
qed

text \<open>
  When lookup and save go through, the first donor with the supplied identifier has the
  supplied collection date for its \<open>lastDonation\<close>, and every other donor is as it was.
\<close>

lemma donor_update_saved:
  assumes nu: "new_unit rt e (b ''bloodType'') (b ''donorId'') (b ''collectionDate'')
                 (expiry_of rt (b ''collectionDate'')) = Inr u"
      and f0: "fault e 0 = None"
      and di: "b ''donorId'' = Some (JStr sid)" "cast_object_id sid = Some i"
      and d: "find (\<lambda>x. d_id x = i) (donors s) = Some d" "stored_donor_errors d = []"
      and f: "fault e 1 = None" "fault e 2 = None"
  shows "\<exists>pre post. donors s = pre @ d # post \<and> (\<forall>z \<in> set pre. d_id z \<noteq> i)
           \<and> donors (snd (post_inventory rt e s b))
               = pre @ d \<lparr> d_lastDonation := Some (u_collectionDate u) \<rparr> # post"
    and "post_inventory_unhandled rt e s b = None"
proof -
  let ?s1 = "s \<lparr> inventory := inventory s @ [u] \<rparr>"
  have l: "optional_date rt None (b ''collectionDate'') = Inr (Some (u_collectionDate u))"
    by (rule required_date_optional_date [OF new_unit_Inr(3) [OF nu]])
  from d(1) have i: "d_id d = i"
    by (auto simp: find_Some_iff)
  have 1: "find_one_donor None rt (b ''donorId'') (donors s) = Inr (Some d)"
    unfolding di(1) find_one_donor_by_id [OF di(2)] using d(1) by simp
  have 2: "save_donor None rt d (b ''collectionDate'') (donors s)
        = Inr (replace_first (\<lambda>x. d_id x = i)
                 (d \<lparr> d_lastDonation := Some (u_collectionDate u) \<rparr>) (donors s))"
    unfolding save_donor_ok [OF d(2) l] by (simp add: i)
  have u: "update_last_donation rt e ?s1 (b ''donorId'') (b ''collectionDate'')
           = (?s1 \<lparr> donors := replace_first (\<lambda>x. d_id x = i)
                 (d \<lparr> d_lastDonation := Some (u_collectionDate u) \<rparr>) (donors s) \<rparr>, None)"
    unfolding update_last_donation_def f by (simp add: 1 2)
  show "post_inventory_unhandled rt e s b = None"
    by (simp add: post_inventory_persisted(2) [OF nu f0] u)
  show "\<exists>pre post. donors s = pre @ d # post \<and> (\<forall>z \<in> set pre. d_id z \<noteq> i)
           \<and> donors (snd (post_inventory rt e s b))
               = pre @ d \<lparr> d_lastDonation := Some (u_collectionDate u) \<rparr> # post"
    using replace_first_split [OF d(1)]
    by (simp add: post_inventory_persisted(1) [OF nu f0] u)
qed

text \<open>A lookup that fails or finds no donor leaves the store and no rejection.\<close>

lemma donor_lookup_failure_caught:
  assumes nu: "new_unit rt e (b ''bloodType'') (b ''donorId'') (b ''collectionDate'')
                 (expiry_of rt (b ''collectionDate'')) = Inr u"
      and f0: "fault e 0 = None"
      and l: "\<forall>d. find_one_donor (fault e 1) rt (b ''donorId'') (donors s) \<noteq> Inr (Some d)"
  shows "post_inventory rt e s b
         = (Json 200 (UnitCreated u), s \<lparr> inventory := inventory s @ [u] \<rparr>)"
    and "post_inventory_unhandled rt e s b = None"
proof -
  have "update_last_donation rt e (s \<lparr> inventory := inventory s @ [u] \<rparr>) (b ''donorId'')
          (b ''collectionDate'') = (s \<lparr> inventory := inventory s @ [u] \<rparr>, None)"
    using l unfolding update_last_donation_def
    by (simp split: sum.splits option.splits)
  then show "post_inventory rt e s b
         = (Json 200 (UnitCreated u), s \<lparr> inventory := inventory s @ [u] \<rparr>)"
    and "post_inventory_unhandled rt e s b = None"
    by (simp_all add: post_inventory_persisted [OF nu f0])
qed

text \<open>
  C2. The claim fails on the code where the donor's save fails. The unit is persisted
  and line 134 answers with it, the donors are as they were, but the error of the save
  is not discarded: line 128 neither awaits the save nor returns its promise, so the
  catch of line 130, written to let the handler continue when the donor update fails,
  does not see the rejection, and the handler leaves it without a handler.
\<close>

theorem donor_save_rejection_unhandled:
  assumes nu: "new_unit rt e (b ''bloodType'') (b ''donorId'') (b ''collectionDate'')
                 (expiry_of rt (b ''collectionDate'')) = Inr u"
      and f0: "fault e 0 = None"
      and di: "b ''donorId'' = Some (JStr sid)" "cast_object_id sid = Some i"
      and d: "find (\<lambda>x. d_id x = i) (donors s) = Some d" "stored_donor_errors d = []"
      and f: "fault e 1 = None" "fault e 2 = Some m"
  shows "post_inventory rt e s b
           = (Json 200 (UnitCreated u), s \<lparr> inventory := inventory s @ [u] \<rparr>)
         \<and> post_inventory_unhandled rt e s b = Some (DriverError m)"
proof -
  let ?s1 = "s \<lparr> inventory := inventory s @ [u] \<rparr>"
  have l: "optional_date rt None (b ''collectionDate'') = Inr (Some (u_collectionDate u))"
    by (rule required_date_optional_date [OF new_unit_Inr(3) [OF nu]])
  have 1: "find_one_donor None rt (b ''donorId'') (donors s) = Inr (Some d)"
    unfolding di(1) find_one_donor_by_id [OF di(2)] using d(1) by simp
  have 2: "save_donor (Some m) rt d (b ''collectionDate'') (donors s) = Inl (DriverError m)"
    by (rule save_donor_driver_error [OF d(2) l])
  have "update_last_donation rt e ?s1 (b ''donorId'') (b ''collectionDate'')
        = (?s1, Some (DriverError m))"
    unfolding update_last_donation_def f by (simp add: 1 2)
  then show ?thesis
    by (simp add: post_inventory_persisted [OF nu f0])
qed

lemma new_unit_env:
  "now e' = now e \<Longrightarrow> new_id e' = new_id e \<Longrightarrow> new_unit rt e' bt di cd ed = new_unit rt e bt di cd ed"
  by (simp add: new_unit_def Let_def)

lemma new_unit_donor_save_failing:
  "new_unit example_runtime donor_save_failing_env (unit_body ''bloodType'')
     (unit_body ''donorId'') (unit_body ''collectionDate'')
     (expiry_of example_runtime (unit_body ''collectionDate''))
   = Inr example_unit"
proof -
  have "now donor_save_failing_env = now example_env"
    "new_id donor_save_failing_env = new_id example_env"
    by (simp_all add: donor_save_failing_env_def)
  then show ?thesis
    using new_unit_example new_unit_env [of donor_save_failing_env example_env] by simp
qed

theorem donor_save_rejection_unhandled_witness:
  "post_inventory example_runtime donor_save_failing_env example_db unit_body
     = (Json 200 (UnitCreated example_unit), example_db \<lparr> inventory := [example_unit] \<rparr>)
   \<and> post_inventory_unhandled example_runtime donor_save_failing_env example_db unit_body
     = Some (DriverError ''connection lost'')"
proof -
  have f: "fault donor_save_failing_env 0 = None" "fault donor_save_failing_env 1 = None"
    "fault donor_save_failing_env 2 = Some ''connection lost''"
    by (simp_all add: donor_save_failing_env_def)
  have d: "unit_body ''donorId'' = Some (JStr ''65a4c1f0e4b0a1b2c3d4e5f6'')"
    by (simp add: unit_body_def)
  have x: "find (\<lambda>x. d_id x = 31457165686801271483383735798) (donors example_db)
           = Some example_donor"
    by (simp add: example_db_def example_donor_def)
  have v: "stored_donor_errors example_donor = []"
    by (simp add: stored_donor_errors_def example_donor_def path_error_def)
  have i: "inventory example_db = []"
    by (simp add: example_db_def)
  show ?thesis
    using donor_save_rejection_unhandled [OF new_unit_donor_save_failing f(1) d
        cast_object_id_example(2) x v f(2,3)]
    by (simp add: i)
qed

section \<open>Failure responses\<close>




















lemma static_passes_on:
  "\<not> is_get m \<Longrightarrow> serve_static rt m p slash = Next"
  by (simp add: serve_static_def)

lemma new_donor_example:
  "new_donor example_runtime e donor_body = Inr (new_example_donor (new_id e) ''Meera'' \<lparr> d_createdAt := Some (now e) \<rparr>)"
  by (simp add: new_donor_def donor_body_def donor_named_def required_string_def
      cast_string_def optional_date_def path_error_def document_id_def version_key_def
      new_example_donor_def)





section \<open>The front-end document\<close>








section \<open>Updating a request\<close>

lemma cast_string_castable: "cast_string rt j \<noteq> Uncastable"
  by (cases j) (simp_all add: cast_string_def)

lemma request_paths_plain:
  assumes "names_only request_paths b"
  shows "map_of b ''_id'' = None"
    and "\<not> list_ex (\<lambda>kv. operator_key (fst kv)) b"
proof -
  from assms have k: "fst kv \<in> set request_paths" if "kv \<in> set b" for kv
    using that by (simp add: names_only_def list_all_iff)
  have "''_id'' \<notin> fst ` set b"
    using k by (force simp: request_paths_def)
  then show "map_of b ''_id'' = None"
    by (simp add: map_of_eq_None_iff)
  have "\<not> operator_key (fst kv)" if "kv \<in> set b" for kv
    using k [OF that] by (auto simp: request_paths_def operator_key_def)
  then show "\<not> list_ex (\<lambda>kv. operator_key (fst kv)) b"
    by (simp add: list_ex_iff)
qed

lemma request_casts:
  assumes "names_only request_paths b" and "distinct (map fst b)"
      and "\<forall>j. map_of b ''unitsNeeded'' = Some j \<longrightarrow> cast_number rt j \<noteq> Uncastable"
      and "\<forall>j. map_of b ''requestDate'' = Some j \<longrightarrow> cast_date rt j \<noteq> Uncastable"
  shows "find (update_cast_fails rt) b = None"
proof -
  have "\<not> update_cast_fails rt kv" if "kv \<in> set b" for kv
  proof -
    obtain k v where kv: "kv = (k, v)"
      by (cases kv)
    from that assms(1) have k: "k \<in> set request_paths"
      by (auto simp: names_only_def list_all_iff kv)
    from that assms(2) have m: "map_of b k = Some v"
      by (simp add: kv)
    show ?thesis
      using k m assms(3,4)
      by (auto simp: update_cast_fails_def kv request_paths_def cast_string_castable)
  qed
  then show ?thesis
    by (simp add: find_None_iff)
qed

lemma assign_set_value: "assign (set_value c v) old = field_after c v old"
  by (simp add: assign_def set_value_def field_after_def split: option.splits cast.splits)

lemma cast_update_fields:
  assumes "names_only request_paths b" and "distinct (map fst b)"
      and "\<forall>j. map_of b ''unitsNeeded'' = Some j \<longrightarrow> cast_number rt j \<noteq> Uncastable"
      and "\<forall>j. map_of b ''requestDate'' = Some j \<longrightarrow> cast_date rt j \<noteq> Uncastable"
  shows "\<exists>u. cast_update rt b = Inr u
           \<and> (\<forall>r. \<not> changes_id u r)
           \<and> (\<forall>r. r_id (apply_update u r) = r_id r
                \<and> r_patientName (apply_update u r)
                    = field_after (cast_string rt) (map_of b ''patientName'') (r_patientName r)
                \<and> r_bloodType (apply_update u r)
                    = field_after (cast_string rt) (map_of b ''bloodType'') (r_bloodType r)
                \<and> r_unitsNeeded (apply_update u r)
                    = field_after (cast_number rt) (map_of b ''unitsNeeded'') (r_unitsNeeded r)
                \<and> r_priority (apply_update u r)
                    = field_after (cast_string rt) (map_of b ''priority'') (r_priority r)
                \<and> r_hospital (apply_update u r)
                    = field_after (cast_string rt) (map_of b ''hospital'') (r_hospital r)
                \<and> r_status (apply_update u r)
                    = field_after (cast_string rt) (map_of b ''status'') (r_status r)
                \<and> r_requestDate (apply_update u r)
                    = field_after (cast_date rt) (map_of b ''requestDate'') (r_requestDate r))"
  by (simp add: cast_update_def request_casts [OF assms] request_paths_plain [OF assms(1)]
      changes_id_def set_value_def [of _ None] apply_update_def assign_set_value)

lemma find_first:
  assumes "P r" and "\<forall>x \<in> set pre. \<not> P x"
  shows "find P (pre @ r # post) = Some r"
  using assms by (induction pre) simp_all

lemma replace_first_first:
  assumes "P r" and "\<forall>x \<in> set pre. \<not> P x"
  shows "replace_first P y (pre @ r # post) = pre @ y # post"
  using assms by (induction pre) simp_all

lemma find_absent:
  assumes "\<forall>x \<in> set xs. \<not> P x"
  shows "find P xs = None"
  using assms by (simp add: find_None_iff)

lemma cast_number_example: "cast_number example_runtime (JStr ''3'') = Val 3"
  by (simp add: cast_number_def example_runtime_def)

text \<open>
  C5, as amended. For a \<open>PUT /api/requests/:id\<close> with a well-formed identifier and
  a body that names only fields of a request, each with a scalar value, whose
  \<open>unitsNeeded\<close> and \<open>requestDate\<close>, when supplied, cast to a number and to a date,
  while the database answers: if no record has the identifier, the response is 200 with
  \<open>success: true\<close> and \<open>null\<close> for the record, and the store is unchanged. If a
  record has it, the response is 200 with \<open>success: true\<close> and the record after the
  update, which takes the place of the record in the store, every other record
  staying; in it each field that the body names holds the supplied value after the cast
  of the field's type, and the identifier and every other field are as they were.
\<close>

theorem put_request_replaces_fields:
  assumes "cast_object_id rid = Some i"
      and "names_only request_paths b" and "distinct (map fst b)"
      and "\<forall>j. map_of b ''unitsNeeded'' = Some j \<longrightarrow> cast_number rt j \<noteq> Uncastable"
      and "\<forall>j. map_of b ''requestDate'' = Some j \<longrightarrow> cast_date rt j \<noteq> Uncastable"
      and "fault e 0 = None"
  shows "((\<forall>r \<in> set (requests s). r_id r \<noteq> i)
            \<longrightarrow> put_request rt e s rid b = (Json 200 (RequestUpdated None), s))
       \<and> (\<forall>pre r post.
            requests s = pre @ r # post \<and> r_id r = i \<and> (\<forall>x \<in> set pre. r_id x \<noteq> i) \<longrightarrow>
            (\<exists>r'. put_request rt e s rid b
                    = (Json 200 (RequestUpdated (Some r')),
                       s \<lparr> requests := pre @ r' # post \<rparr>)
                 \<and> r_id r' = r_id r
                 \<and> r_patientName r'
                     = field_after (cast_string rt) (map_of b ''patientName'') (r_patientName r)
                 \<and> r_bloodType r'
                     = field_after (cast_string rt) (map_of b ''bloodType'') (r_bloodType r)
                 \<and> r_unitsNeeded r'
                     = field_after (cast_number rt) (map_of b ''unitsNeeded'') (r_unitsNeeded r)
                 \<and> r_priority r'
                     = field_after (cast_string rt) (map_of b ''priority'') (r_priority r)
                 \<and> r_hospital r'
                     = field_after (cast_string rt) (map_of b ''hospital'') (r_hospital r)
                 \<and> r_status r'
                     = field_after (cast_string rt) (map_of b ''status'') (r_status r)
                 \<and> r_requestDate r'
                     = field_after (cast_date rt) (map_of b ''requestDate'') (r_requestDate r)))"
proof -
  from cast_update_fields [OF assms(2-5)] obtain u where u: "cast_update rt b = Inr u"
    and same_id: "\<And>r. \<not> changes_id u r"
    and fields: "\<And>r. r_id (apply_update u r) = r_id r
                \<and> r_patientName (apply_update u r)
                    = field_after (cast_string rt) (map_of b ''patientName'') (r_patientName r)
                \<and> r_bloodType (apply_update u r)
                    = field_after (cast_string rt) (map_of b ''bloodType'') (r_bloodType r)
                \<and> r_unitsNeeded (apply_update u r)
                    = field_after (cast_number rt) (map_of b ''unitsNeeded'') (r_unitsNeeded r)
                \<and> r_priority (apply_update u r)
                    = field_after (cast_string rt) (map_of b ''priority'') (r_priority r)
                \<and> r_hospital (apply_update u r)
                    = field_after (cast_string rt) (map_of b ''hospital'') (r_hospital r)
                \<and> r_status (apply_update u r)
                    = field_after (cast_string rt) (map_of b ''status'') (r_status r)
                \<and> r_requestDate (apply_update u r)
                    = field_after (cast_date rt) (map_of b ''requestDate'') (r_requestDate r)"
    by blast
  have none: "put_request rt e s rid b = (Json 200 (RequestUpdated None), s)"
    if "\<forall>r \<in> set (requests s). r_id r \<noteq> i"
    by (simp add: put_request_def find_by_id_and_update_def assms(1,6) u find_absent [OF that])
  have some: "put_request rt e s rid b
               = (Json 200 (RequestUpdated (Some (apply_update u r))),
                  s \<lparr> requests := pre @ apply_update u r # post \<rparr>)"
    if "requests s = pre @ r # post" "r_id r = i" "\<forall>x \<in> set pre. r_id x \<noteq> i" for pre r post
  proof -
    have "find (\<lambda>r. r_id r = i) (requests s) = Some r"
      unfolding that(1) by (rule find_first) (use that in auto)
    moreover have "replace_first (\<lambda>r. r_id r = i) (apply_update u r) (requests s)
                   = pre @ apply_update u r # post"
      unfolding that(1) by (rule replace_first_first) (use that in auto)
    ultimately show ?thesis
      by (simp add: put_request_def find_by_id_and_update_def assms(1,6) u same_id)
  qed
  show ?thesis
    using none some fields by blast
qed

lemma status_body_fits:
  "names_only request_paths status_body" "distinct (map fst status_body)"
  "\<forall>j. map_of status_body ''unitsNeeded'' = Some j \<longrightarrow> cast_number example_runtime j \<noteq> Uncastable"
  "\<forall>j. map_of status_body ''requestDate'' = Some j \<longrightarrow> cast_date example_runtime j \<noteq> Uncastable"
  by (simp_all add: names_only_def request_paths_def status_body_def cast_number_example)

theorem put_request_replaces_fields_witness:
  "put_request example_runtime example_env example_db ''65a4c1f0e4b0a1b2c3d4e5f7'' status_body
     = (Json 200 (RequestUpdated None), example_db)
   \<and> (\<exists>r'. put_request example_runtime example_env example_db ''65a4c1f0e4b0a1b2c3d4e5f6''
              status_body
            = (Json 200 (RequestUpdated (Some r')), example_db \<lparr> requests := [r'] \<rparr>)
          \<and> r_id r' = r_id example_request
          \<and> r_status r' = Some ''Fulfilled'' \<and> r_unitsNeeded r' = Some 3
          \<and> r_patientName r' = Some ''Ravi'')"
proof -
  have f: "fault example_env 0 = None"
    by (simp add: example_env_def)
  have a: "\<forall>r \<in> set (requests example_db). r_id r \<noteq> 31457165686801271483383735799"
    by (simp add: example_db_def example_request_def)
  have b: "requests example_db = [] @ example_request # []
           \<and> r_id example_request = 31457165686801271483383735798
           \<and> (\<forall>x \<in> set []. r_id x \<noteq> 31457165686801271483383735798)"
    by (simp add: example_db_def example_request_def)
  have v: "map_of status_body ''status'' = Some (JStr ''Fulfilled'')"
    "map_of status_body ''unitsNeeded'' = Some (JStr ''3'')"
    "map_of status_body ''patientName'' = None"
    by (simp_all add: status_body_def)
  have r: "r_patientName example_request = Some ''Ravi''"
    by (simp add: example_request_def)
  note A = put_request_replaces_fields [OF cast_object_id_example(1) status_body_fits f,
      of example_db]
  note B = put_request_replaces_fields [OF cast_object_id_example(2) status_body_fits f,
      of example_db]
  from A a have 1: "put_request example_runtime example_env example_db
                      ''65a4c1f0e4b0a1b2c3d4e5f7'' status_body
                    = (Json 200 (RequestUpdated None), example_db)"
    by blast
  from B [THEN conjunct2, rule_format, OF b]
  obtain r' where "put_request example_runtime example_env example_db
                     ''65a4c1f0e4b0a1b2c3d4e5f6'' status_body
                   = (Json 200 (RequestUpdated (Some r')), example_db \<lparr> requests := [r'] \<rparr>)"
    "r_id r' = r_id example_request"
    "r_status r' = Some ''Fulfilled''" "r_unitsNeeded r' = Some 3"
    "r_patientName r' = Some ''Ravi''"
    by (auto simp: v r field_after_def cast_string_def cast_number_example)
  with 1 show ?thesis
    by blast
qed

text \<open>
  The claim as it was stated fails for the identifier \<^verbatim>\<open>abc\<close>: no record matches
  it, and the response is 500 with \<open>success: false\<close>. It fails for a body with a
  member that findByIdAndUpdate refuses, on a well-formed identifier that a record has
  and on one that no record has: an update operator with a scalar value, a
  \<open>unitsNeeded\<close> that is no number, an \<open>_id\<close> that is no identifier.
\<close>

theorem put_malformed_id_counterexample:
  "handle example_runtime example_env example_db (api PUT [''api'', ''requests'', ''abc''] status_body)
   = (Json 500 (Failure (CastError ''_id'')), example_db, None)
   \<and> find (\<lambda>r. Some (r_id r) = cast_object_id ''abc'') (requests example_db) = None
   \<and> success (Failure (CastError ''_id'')) = Some False
   \<and> put_request example_runtime example_env example_db ''65a4c1f0e4b0a1b2c3d4e5f6''
       (status_body @ [(''$inc'', JNum 5)])
   = (Json 500 (Failure (MongooseError ''Invalid atomic update value'')), example_db)
   \<and> put_request example_runtime example_env example_db ''65a4c1f0e4b0a1b2c3d4e5f7''
       [(''unitsNeeded'', JStr ''many'')]
   = (Json 500 (Failure (CastError ''unitsNeeded'')), example_db)
   \<and> put_request example_runtime example_env example_db ''65a4c1f0e4b0a1b2c3d4e5f6''
       [(''_id'', JStr ''abc'')]
   = (Json 500 (Failure (CastError ''_id'')), example_db)"
proof -
  have abc: "cast_id example_runtime (JStr ''abc'') = Uncastable"
    by (simp add: cast_id_def cast_object_id_def)
  have "handle example_runtime example_env example_db
          (api PUT [''api'', ''requests'', ''abc''] status_body)
        = (Json 500 (Failure (CastError ''_id'')), example_db, None)"
    by (simp add: handle_def api_def static_passes_on is_get_def route_of_def lower_def
        lower_char_def run_route_def settled_def put_request_def find_by_id_and_update_def
        cast_object_id_def for_method_def)
  moreover have "find (\<lambda>r. Some (r_id r) = cast_object_id ''abc'') (requests example_db) = None"
    by (simp add: cast_object_id_def example_db_def)
  moreover have "put_request example_runtime example_env example_db ''65a4c1f0e4b0a1b2c3d4e5f6''
       (status_body @ [(''$inc'', JNum 5)])
   = (Json 500 (Failure (MongooseError ''Invalid atomic update value'')), example_db)"
    by (simp add: put_request_def find_by_id_and_update_def cast_object_id_example
        cast_update_def update_cast_fails_def status_body_def cast_string_def
        cast_number_example operator_key_def)
  moreover have "put_request example_runtime example_env example_db ''65a4c1f0e4b0a1b2c3d4e5f7''
       [(''unitsNeeded'', JStr ''many'')]
   = (Json 500 (Failure (CastError ''unitsNeeded'')), example_db)"
    by (simp add: put_request_def find_by_id_and_update_def cast_object_id_example
        cast_update_def update_cast_fails_def cast_number_def example_runtime_def)
  moreover have "put_request example_runtime example_env example_db ''65a4c1f0e4b0a1b2c3d4e5f6''
       [(''_id'', JStr ''abc'')]
   = (Json 500 (Failure (CastError ''_id'')), example_db)"
    by (simp add: put_request_def find_by_id_and_update_def cast_object_id_example
        cast_update_def update_cast_fails_def abc)
  ultimately show ?thesis
    by (simp add: success_def)
qed

section \<open>Registering a donor\<close>

lemma required_string_Inr: "(\<exists>s. required_string rt v = Inr s) \<longleftrightarrow> nonempty_string rt v"
  by (auto simp: required_string_def nonempty_string_def split: option.splits cast.splits)

lemma optional_date_Inr: "(\<exists>x. optional_date rt dflt v = Inr x) \<longleftrightarrow> date_or_absent rt v"
  by (auto simp: optional_date_def date_or_absent_def split: option.splits cast.splits)

lemma optional_date_value:
  "optional_date rt dflt v = Inr x \<Longrightarrow> x = field_after (cast_date rt) v dflt"
  by (auto simp: optional_date_def field_after_def split: option.splits cast.splits)

lemma donor_paths_plain:
  assumes "names_only donor_paths b"
  shows "map_of b ''_id'' = None" and "map_of b ''__v'' = None"
proof -
  from assms have k: "fst kv \<in> set donor_paths" if "kv \<in> set b" for kv
    using that by (simp add: names_only_def list_all_iff)
  have "''_id'' \<notin> fst ` set b" "''__v'' \<notin> fst ` set b"
    using k by (force simp: donor_paths_def)+
  then show "map_of b ''_id'' = None" and "map_of b ''__v'' = None"
    by (simp_all add: map_of_eq_None_iff)
qed

lemma path_error_Inr: "path_error p (Inr x) = []"
  by (simp add: path_error_def)

lemma new_donor_accepted:
  assumes "names_only donor_paths b"
  shows "(\<exists>d. new_donor rt e b = Inr d) \<longleftrightarrow> donor_accepted rt (map_of b)"
proof -
  let ?errs = "path_error ''name'' (required_string rt (map_of b ''name''))
               @ path_error ''bloodType'' (required_string rt (map_of b ''bloodType''))
               @ path_error ''phone'' (required_string rt (map_of b ''phone''))
               @ path_error ''email'' (required_string rt (map_of b ''email''))
               @ path_error ''address'' (required_string rt (map_of b ''address''))
               @ path_error ''lastDonation''
                   (optional_date rt None (map_of b ''lastDonation''))
               @ path_error ''createdAt''
                   (optional_date rt (Some (now e)) (map_of b ''createdAt''))"
  have "(\<exists>d. new_donor rt e b = Inr d) \<longleftrightarrow> ?errs = []"
    by (simp add: new_donor_def Let_def donor_paths_plain [OF assms] document_id_def
        version_key_def path_error_Inr)
  also have "\<dots> \<longleftrightarrow> donor_accepted rt (map_of b)"
    by (simp add: path_error_Nil donor_accepted_def required_string_Inr optional_date_Inr)
  finally show ?thesis .
qed

lemma new_donor_Inr:
  assumes "names_only donor_paths b" and "new_donor rt e b = Inr d"
  shows "d_id d = new_id e"
    and "d_createdAt d = field_after (cast_date rt) (map_of b ''createdAt'') (Some (now e))"
    and "d_lastDonation d = field_after (cast_date rt) (map_of b ''lastDonation'') None"
proof -
  from assms(2) obtain l c
    where l: "optional_date rt None (map_of b ''lastDonation'') = Inr l"
      and c: "optional_date rt (Some (now e)) (map_of b ''createdAt'') = Inr c"
    by (auto simp: new_donor_def Let_def path_error_Nil split: if_splits)
  from assms(2) have "d_id d = new_id e \<and> d_createdAt d = c \<and> d_lastDonation d = l"
    by (auto simp: new_donor_def Let_def donor_paths_plain [OF assms(1)] document_id_def
        version_key_def l c split: if_splits)
  with optional_date_value [OF l] optional_date_value [OF c]
  show "d_id d = new_id e"
    and "d_createdAt d = field_after (cast_date rt) (map_of b ''createdAt'') (Some (now e))"
    and "d_lastDonation d = field_after (cast_date rt) (map_of b ''lastDonation'') None"
    by simp_all
qed

text \<open>
  C6, as amended. For a body that names only fields of a donor, each with a scalar
  value, \<open>POST /api/donors\<close> answers 200 with \<open>success: true\<close> and the stored donor,
  carrying the generated identifier, exactly when each of \<open>name\<close>, \<open>bloodType\<close>,
  \<open>phone\<close>, \<open>email\<close> and \<open>address\<close> is supplied with a value that casts to a
  string that is not empty, \<open>lastDonation\<close> and \<open>createdAt\<close> are absent, \<open>null\<close>
  or cast to a date, and the save goes through. The donor's \<open>createdAt\<close> is then the
  time of the request when the body does not name it, and the supplied value after its
  cast when it does. In every other case the response is 400 with \<open>success: false\<close>
  and the store is unchanged.
\<close>

theorem post_donors_accepts_iff:
  assumes "names_only donor_paths b"
  shows "(donor_accepted rt (map_of b) \<and> fault e 0 = None \<longrightarrow>
            (\<exists>d. post_donors rt e s b
                   = (Json 200 (DonorCreated d), s \<lparr> donors := donors s @ [d] \<rparr>)
                \<and> d_id d = new_id e
                \<and> d_createdAt d
                    = field_after (cast_date rt) (map_of b ''createdAt'') (Some (now e))))
       \<and> (\<not> (donor_accepted rt (map_of b) \<and> fault e 0 = None) \<longrightarrow>
            (\<exists>err. post_donors rt e s b = (Json 400 (Failure err), s)))"
proof (cases "donor_accepted rt (map_of b)")
  case True
  then obtain d where d: "new_donor rt e b = Inr d"
    using new_donor_accepted [OF assms] by blast
  note i = donor_paths_plain(1) [OF assms]
  show ?thesis
  proof (cases "fault e 0")
    case None
    with True d new_donor_Inr [OF assms d] show ?thesis
      by (simp add: post_donors_def save_new_def i insert_doc_def)
  next
    case (Some m)
    with d show ?thesis
      by (simp add: post_donors_def save_new_def i insert_doc_def)
  qed
next
  case False
  then have "\<forall>d. new_donor rt e b \<noteq> Inr d"
    using new_donor_accepted [OF assms] by blast
  then obtain err where "new_donor rt e b = Inl err"
    by (cases "new_donor rt e b") auto
  with False show ?thesis
    by (simp add: post_donors_def)
qed

lemma donor_body_fits: "names_only donor_paths donor_body"
  by (simp add: names_only_def donor_paths_def donor_body_def donor_named_def)

theorem post_donors_accepts_iff_witness:
  "(\<exists>d. post_donors example_runtime example_env example_db donor_body
          = (Json 200 (DonorCreated d), example_db \<lparr> donors := [example_donor, d] \<rparr>)
        \<and> d_id d = 31457165686801271483383735799 \<and> d_createdAt d = Some 1705320000000)
   \<and> (\<exists>err. post_donors example_runtime save_failing_env example_db donor_body
          = (Json 400 (Failure err), example_db))"
proof -
  have a: "donor_accepted example_runtime (map_of donor_body)"
    using new_donor_example new_donor_accepted [OF donor_body_fits] by blast
  have f: "fault example_env 0 = None" "fault save_failing_env 0 \<noteq> None"
    by (simp_all add: example_env_def save_failing_env_def)
  have v: "map_of donor_body ''createdAt'' = None" "donors example_db = [example_donor]"
    "new_id example_env = 31457165686801271483383735799" "now example_env = 1705320000000"
    by (simp_all add: donor_body_def donor_named_def example_db_def example_env_def)
  show ?thesis
    using post_donors_accepts_iff [OF donor_body_fits, of example_runtime example_env example_db]
      post_donors_accepts_iff [OF donor_body_fits, of example_runtime save_failing_env
        example_db] a f
    by (simp add: v field_after_def)
qed

lemma decimal_42: "decimal 42 = ''42''"
  by (simp add: decimal.simps)

text \<open>
  The claim as it was stated fails in both directions. A body with all five required
  fields as strings is refused when \<open>name\<close> is the empty string, when the optional
  \<open>lastDonation\<close> is not a date, and when it carries an \<open>_id\<close> that is no
  identifier or the identifier of a stored donor. A body whose \<open>name\<close> is the number
  42 is accepted, and the donor stored has the name \<^verbatim>\<open>42\<close>.
\<close>

theorem post_donors_iff_counterexample:
  "supplies_required_fields (map_of (donor_named (JStr [])))
   \<and> post_donors example_runtime example_env example_db (donor_named (JStr []))
     = (Json 400 (Failure (ValidationError [(''name'', Required)])), example_db)
   \<and> supplies_required_fields (map_of (donor_body @ [(''lastDonation'', JStr ''soon'')]))
   \<and> post_donors example_runtime example_env example_db
       (donor_body @ [(''lastDonation'', JStr ''soon'')])
     = (Json 400 (Failure (ValidationError [(''lastDonation'', CastFailed)])), example_db)
   \<and> supplies_required_fields (map_of (donor_body @ [(''_id'', JStr ''xyz'')]))
   \<and> post_donors example_runtime example_env example_db (donor_body @ [(''_id'', JStr ''xyz'')])
     = (Json 400 (Failure (ValidationError [(''_id'', CastFailed)])), example_db)
   \<and> supplies_required_fields
       (map_of (donor_body @ [(''_id'', JStr ''65a4c1f0e4b0a1b2c3d4e5f6'')]))
   \<and> post_donors example_runtime example_env example_db
       (donor_body @ [(''_id'', JStr ''65a4c1f0e4b0a1b2c3d4e5f6'')])
     = (Json 400 (Failure (DriverError ''E11000 duplicate key error'')), example_db)
   \<and> \<not> supplies_required_fields (map_of (donor_named (JNum 42)))
   \<and> post_donors example_runtime example_env example_db (donor_named (JNum 42))
     = (Json 200 (DonorCreated (new_example_donor 31457165686801271483383735799 ''42'')),
        example_db \<lparr> donors := [example_donor,
          new_example_donor 31457165686801271483383735799 ''42''] \<rparr>)"
proof -
  have 1: "post_donors example_runtime example_env example_db (donor_named (JStr []))
     = (Json 400 (Failure (ValidationError [(''name'', Required)])), example_db)"
    by (simp add: post_donors_def new_donor_def donor_named_def required_string_def
        cast_string_def optional_date_def path_error_def document_id_def version_key_def)
  have 2: "post_donors example_runtime example_env example_db
       (donor_body @ [(''lastDonation'', JStr ''soon'')])
     = (Json 400 (Failure (ValidationError [(''lastDonation'', CastFailed)])), example_db)"
    by (simp add: post_donors_def new_donor_def donor_body_def donor_named_def
        required_string_def cast_string_def optional_date_def path_error_def document_id_def
        version_key_def cast_date_def date_of_string_def new_Date_def example_runtime_def)
  have 3: "post_donors example_runtime example_env example_db
       (donor_body @ [(''_id'', JStr ''xyz'')])
     = (Json 400 (Failure (ValidationError [(''_id'', CastFailed)])), example_db)"
    by (simp add: post_donors_def new_donor_def donor_body_def donor_named_def
        required_string_def cast_string_def optional_date_def path_error_def document_id_def
        version_key_def cast_id_def cast_object_id_def)
  have 4: "post_donors example_runtime example_env example_db
       (donor_body @ [(''_id'', JStr ''65a4c1f0e4b0a1b2c3d4e5f6'')])
     = (Json 400 (Failure (DriverError ''E11000 duplicate key error'')), example_db)"
    by (simp add: post_donors_def new_donor_def donor_body_def donor_named_def
        required_string_def cast_string_def optional_date_def path_error_def document_id_def
        version_key_def cast_id_def cast_object_id_example save_new_def insert_with_id_def
        example_env_def example_db_def example_donor_def)
  have 5: "post_donors example_runtime example_env example_db (donor_named (JNum 42))
     = (Json 200 (DonorCreated (new_example_donor 31457165686801271483383735799 ''42'')),
        example_db \<lparr> donors := [example_donor,
          new_example_donor 31457165686801271483383735799 ''42''] \<rparr>)"
    by (simp add: post_donors_def new_donor_def donor_named_def required_string_def
        cast_string_def optional_date_def path_error_def document_id_def version_key_def
        save_new_def insert_doc_def example_env_def example_db_def new_example_donor_def
        example_runtime_def decimal_42)
  have 6: "supplies_required_fields (map_of (donor_named (JStr [])))"
    "supplies_required_fields (map_of (donor_body @ [(''lastDonation'', JStr ''soon'')]))"
    "supplies_required_fields (map_of (donor_body @ [(''_id'', JStr ''xyz'')]))"
    "supplies_required_fields
       (map_of (donor_body @ [(''_id'', JStr ''65a4c1f0e4b0a1b2c3d4e5f6'')]))"
    "\<not> supplies_required_fields (map_of (donor_named (JNum 42)))"
    by (simp_all add: supplies_required_fields_def is_string_def donor_body_def donor_named_def)
  show ?thesis
    using 1 2 3 4 5 6 by simp
qed

end
